theory Spec2Isabelle
  imports Complex_Main
begin

section \<open>Data model\<close>

text \<open>
  \<^verbatim>\<open>models.py\<close>: an \<^verbatim>\<open>Event\<close> has a string \<^verbatim>\<open>event_type\<close>, a \<^verbatim>\<open>datetime\<close>
  \<^verbatim>\<open>timestamp\<close>, an optional \<^verbatim>\<open>UUID\<close> \<^verbatim>\<open>user_id\<close> and an optional string \<^verbatim>\<open>url\<close>.
  A \<^verbatim>\<open>datetime\<close> is modelled by its number of microseconds on the time line (microseconds
  are the resolution of \<^verbatim>\<open>datetime\<close>), a \<^verbatim>\<open>UUID\<close> by its 128-bit integer value. The
  bounds of \<^verbatim>\<open>datetime\<close> (years 1 to 9999) are not modelled: the clock is taken to read a
  time more than ten days after \<^verbatim>\<open>datetime.min\<close>, so that subtracting up to ten days does
  not overflow.
\<close>

type_synonym datetime = int

datatype uuid = UUID nat

record Event =
  event_type :: string
  timestamp :: datetime
  user_id :: "uuid option"
  url :: "string option"

text \<open>
  \<^verbatim>\<open>tuple(event.model_dump().values())\<close> and the tuple
  \<^verbatim>\<open>(event.event_type, event.timestamp, event.user_id, event.url)\<close>: the four fields in
  declaration order.
\<close>

type_synonym row = "string \<times> datetime \<times> uuid option \<times> string option"

definition model_dump_values :: "Event \<Rightarrow> row" where
  "model_dump_values e = (event_type e, timestamp e, user_id e, url e)"

definition model_fields_keys :: "string list" where
  "model_fields_keys = [''event_type'', ''timestamp'', ''user_id'', ''url'']"

text \<open>\<^verbatim>\<open>config/settings.py\<close>: the two settings classes, with their defaults.\<close>

record ClickhouseSettings =
  ch_host :: string
  ch_port :: int
  ch_database :: string
  ch_user :: string
  ch_password :: string
  ch_table :: string

record VerticaSettings =
  vt_host :: string
  vt_port :: int
  vt_database :: string
  vt_user :: string
  vt_password :: string
  vertica_schema :: string
  vt_table :: string

definition ClickhouseSettings_default :: ClickhouseSettings where
  "ClickhouseSettings_default =
     \<lparr>ch_host = ''clickhouse-node1'', ch_port = 8123, ch_database = ''example'',
      ch_user = ''default'', ch_password = '''', ch_table = ''events''\<rparr>"

definition VerticaSettings_default :: VerticaSettings where
  "VerticaSettings_default =
     \<lparr>vt_host = ''vertica'', vt_port = 5433, vt_database = ''docker'',
      vt_user = ''dbadmin'', vt_password = '''', vertica_schema = ''public'',
      vt_table = ''events''\<rparr>"

record Settings =
  clickhouse :: ClickhouseSettings
  vertica :: VerticaSettings

section \<open>Exceptions and results\<close>

text \<open>
  The exceptions that reach the program: the Vertica driver's own
  \<^verbatim>\<open>vertica_python.errors.ConnectionError\<close>, Python's builtin \<^verbatim>\<open>ConnectionError\<close>
  (raised by \<^verbatim>\<open>connect_to_vertica\<close>), and any other exception a driver raises. All of
  them are subclasses of \<^verbatim>\<open>Exception\<close>. A call either returns a value or raises.
\<close>

datatype exn =
  VerticaConnectionError string
| ConnectionError
| DriverError string

fun exn_str :: "exn \<Rightarrow> string" where
  "exn_str (VerticaConnectionError m) = m"
| "exn_str ConnectionError = ''''"
| "exn_str (DriverError m) = m"

datatype 'a outcome = Return 'a | Raise exn

section \<open>The outside world\<close>

text \<open>
  The program reads a random source, two clocks and the operating system's entropy (for
  \<^verbatim>\<open>uuid4\<close>), and it talks to two database servers. An \<open>env\<close> fixes what the outside
  answers: the value of the \<open>k\<close>-th call of each kind, and whether the \<open>k\<close>-th call to a
  driver raises. Nothing is assumed about these answers.
\<close>

record env =
  rand_raw :: "nat \<Rightarrow> nat"  \<comment> \<open>entropy behind the \<open>k\<close>-th call into module \<^verbatim>\<open>random\<close>\<close>
  uuid_raw :: "nat \<Rightarrow> uuid"  \<comment> \<open>result of the \<open>k\<close>-th \<^verbatim>\<open>uuid4()\<close>\<close>
  now_raw :: "nat \<Rightarrow> datetime"  \<comment> \<open>result of the \<open>k\<close>-th \<^verbatim>\<open>datetime.now()\<close>\<close>
  time_raw :: "nat \<Rightarrow> real"  \<comment> \<open>result of the \<open>k\<close>-th \<^verbatim>\<open>time.time()\<close>, in seconds\<close>
  ch_connect_fail :: "exn option"  \<comment> \<open>what \<^verbatim>\<open>clickhouse_connect.get_client\<close> raises, if anything\<close>
  ch_fail :: "nat \<Rightarrow> exn option"  \<comment> \<open>what the \<open>k\<close>-th call on the ClickHouse client raises on its own (network, refusal)\<close>
  ch_reply :: "nat \<Rightarrow> string"  \<comment> \<open>the summary text of the \<open>k\<close>-th ClickHouse call's result\<close>
  vt_connect_fail :: "exn option"  \<comment> \<open>what \<^verbatim>\<open>vertica_python.connect\<close> raises, if anything\<close>
  vt_fail :: "nat \<Rightarrow> exn option"  \<comment> \<open>what the \<open>k\<close>-th operation on the Vertica connection raises\<close>

text \<open>
  What the program writes to the logger. \<^verbatim>\<open>logger.exception\<close> records the exception being
  handled next to the message. Values that an f-string formats (a dictionary, a float
  under \<^verbatim>\<open>:.2f\<close>) are kept as values.
\<close>

datatype pyval = PyStr string | PyInt int | PyBool bool

datatype log_entry =
  INFO string
| INFO_dict "(string \<times> pyval) list"
| INFO_float string real string
| ERROR string
| EXCEPTION string exn

text \<open>
  The calls made on the ClickHouse client. A statement passed to \<^verbatim>\<open>client.command\<close> or
  \<^verbatim>\<open>client.query\<close> is kept by its kind and the name the f-string puts in; \<open>ch_sql\<close> gives
  the text the source builds.
\<close>

datatype ch_stmt =
  CreateDatabaseIfNotExists string
| Use string
| DropTableIfExists string
| CreateTableIfNotExists string "(string \<times> string) list" string
| SelectAllFrom string

datatype ch_call =
  Command ch_stmt
| Insert string "row list" "string list"
| Query ch_stmt

fun column_defs :: "(string \<times> string) list \<Rightarrow> string" where
  "column_defs [] = ''''"
| "column_defs [(n, t)] = n @ '' '' @ t"
| "column_defs ((n, t) # c # cs) = n @ '' '' @ t @ '', '' @ column_defs (c # cs)"

fun ch_sql :: "ch_stmt \<Rightarrow> string" where
  "ch_sql (CreateDatabaseIfNotExists d) = ''CREATE DATABASE IF NOT EXISTS '' @ d"
| "ch_sql (Use d) = ''USE '' @ d"
| "ch_sql (DropTableIfExists t) = ''DROP TABLE IF EXISTS '' @ t"
| "ch_sql (CreateTableIfNotExists t cols tail) =
     ''CREATE TABLE IF NOT EXISTS '' @ t @ '' ('' @ column_defs cols @ '') '' @ tail"
| "ch_sql (SelectAllFrom t) = ''SELECT * FROM '' @ t"

text \<open>
  A statement executed on a Vertica cursor: the SQL text and, for a parameterised
  statement, the tuple of parameters.
\<close>

datatype vt_stmt = Execute string "row option"

text \<open>
  The state of the ClickHouse server: the set of databases, the database selected by
  \<^verbatim>\<open>USE\<close>, and the tables by the name a statement gives them, each with its columns, its
  engine clause and its rows.
\<close>

record ch_table =
  columns :: "(string \<times> string) list"
  engine :: string
  table_rows :: "row list"

record ch_server =
  databases :: "string set"
  current_db :: string
  tables :: "string \<rightharpoonup> ch_table"

text \<open>
  Modelled from the spec: the ClickHouse server is not part of the repository, so what
  it does with a statement is taken from the words of the statements (section 6 of the
  specification): create the database if it does not exist, select a database, drop the
  table if it exists, create the table if it does not exist, unfiltered select. Selecting
  a database that does not exist and reading a table that does not exist raise. The
  result is the rows returned and the new state.
\<close>

fun ch_exec_stmt :: "ch_stmt \<Rightarrow> ch_server \<Rightarrow> exn + (row list \<times> ch_server)" where
  "ch_exec_stmt (CreateDatabaseIfNotExists d) s =
     Inr ([], s\<lparr>databases := insert d (databases s)\<rparr>)"
| "ch_exec_stmt (Use d) s =
     (if d \<in> databases s then Inr ([], s\<lparr>current_db := d\<rparr>)
      else Inl (DriverError ''UNKNOWN_DATABASE''))"
| "ch_exec_stmt (DropTableIfExists t) s = Inr ([], s\<lparr>tables := (tables s)(t := None)\<rparr>)"
| "ch_exec_stmt (CreateTableIfNotExists t cols tail) s =
     (case tables s t of
        Some tb \<Rightarrow> Inr ([], s)
      | None \<Rightarrow>
          Inr ([], s\<lparr>tables := (tables s)(t \<mapsto>
            \<lparr>columns = cols, engine = tail, table_rows = []\<rparr>)\<rparr>))"
| "ch_exec_stmt (SelectAllFrom t) s =
     (case tables s t of
        None \<Rightarrow> Inl (DriverError ''UNKNOWN_TABLE'')
      | Some tb \<Rightarrow> Inr (table_rows tb, s))"

text \<open>
  Modelled from the spec: the server's answer to a call of the client. A bulk insert
  appends the rows to the named table and raises when there is no such table.
\<close>

fun ch_exec :: "ch_call \<Rightarrow> ch_server \<Rightarrow> exn + (row list \<times> ch_server)" where
  "ch_exec (Command st) s = ch_exec_stmt st s"
| "ch_exec (Query st) s = ch_exec_stmt st s"
| "ch_exec (Insert t data column_names) s =
     (case tables s t of
        None \<Rightarrow> Inl (DriverError ''UNKNOWN_TABLE'')
      | Some tb \<Rightarrow>
          Inr ([], s\<lparr>tables := (tables s)(t \<mapsto> tb\<lparr>table_rows := table_rows tb @ data\<rparr>)\<rparr>))"

text \<open>
  The state of a run: how many answers of each kind have been consumed, the \<^verbatim>\<open>Event\<close>
  objects by address, the log, every call made on the ClickHouse client and the server's
  state, the number of operations made on the Vertica connection and every statement
  executed on it.
\<close>

record world =
  rand_pos :: nat
  uuid_pos :: nat
  now_pos :: nat
  time_pos :: nat
  heap :: "nat \<Rightarrow> Event"
  heap_next :: nat
  log_lines :: "log_entry list"
  ch_calls :: "ch_call list"
  ch_state :: ch_server
  vt_ops :: nat
  vt_stmts :: "vt_stmt list"

section \<open>The event generator\<close>

text \<open>
  The library calls of \<^verbatim>\<open>generate_events\<close>. \<^verbatim>\<open>random.choice(seq)\<close> is
  \<^verbatim>\<open>seq[_randbelow(len(seq))]\<close> and \<^verbatim>\<open>random.randint(a, b)\<close> is
  \<^verbatim>\<open>a + _randbelow(b - a + 1)\<close>, where \<^verbatim>\<open>_randbelow(n)\<close> returns some \<open>k < n\<close>: here the
  call's entropy modulo \<open>n\<close>, which ranges over exactly these values.
  \<^verbatim>\<open>random.random()\<close> returns a multiple of \<open>2\<^sup>-\<^sup>5\<^sup>3\<close> in \<open>[0, 1)\<close>. Every call consumes
  one answer of its kind.
\<close>

definition randbelow :: "env \<Rightarrow> nat \<Rightarrow> world \<Rightarrow> nat \<times> world" where
  "randbelow env n w = (rand_raw env (rand_pos w) mod n, w\<lparr>rand_pos := Suc (rand_pos w)\<rparr>)"

definition random_choice :: "env \<Rightarrow> 'a list \<Rightarrow> world \<Rightarrow> 'a \<times> world" where
  "random_choice env seq w = (let (i, w') = randbelow env (length seq) w in (seq ! i, w'))"

definition random_randint :: "env \<Rightarrow> int \<Rightarrow> int \<Rightarrow> world \<Rightarrow> int \<times> world" where
  "random_randint env a b w =
     (let (i, w') = randbelow env (nat (b - a + 1)) w in (a + int i, w'))"

definition random_random :: "env \<Rightarrow> world \<Rightarrow> real \<times> world" where
  "random_random env w =
     (real (rand_raw env (rand_pos w) mod 2 ^ 53) / 2 ^ 53, w\<lparr>rand_pos := Suc (rand_pos w)\<rparr>)"

definition uuid4 :: "env \<Rightarrow> world \<Rightarrow> uuid \<times> world" where
  "uuid4 env w = (uuid_raw env (uuid_pos w), w\<lparr>uuid_pos := Suc (uuid_pos w)\<rparr>)"

definition datetime_now :: "env \<Rightarrow> world \<Rightarrow> datetime \<times> world" where
  "datetime_now env w = (now_raw env (now_pos w), w\<lparr>now_pos := Suc (now_pos w)\<rparr>)"

definition time_time :: "env \<Rightarrow> world \<Rightarrow> real \<times> world" where
  "time_time env w = (time_raw env (time_pos w), w\<lparr>time_pos := Suc (time_pos w)\<rparr>)"

text \<open>\<^verbatim>\<open>timedelta(days=d)\<close>, in microseconds.\<close>

definition timedelta_days :: "int \<Rightarrow> int" where
  "timedelta_days d = d * 86400000000"

text \<open>Constructing an \<^verbatim>\<open>Event\<close> makes a new object; the result is its address.\<close>

definition new_Event :: "Event \<Rightarrow> world \<Rightarrow> nat \<times> world" where
  "new_Event e w =
     (heap_next w, w\<lparr>heap := (heap w)(heap_next w := e), heap_next := Suc (heap_next w)\<rparr>)"

text \<open>
  One round of the list comprehension of \<^verbatim>\<open>generate_events\<close>. The keyword arguments are
  evaluated from left to right, \<^verbatim>\<open>datetime.now()\<close> before \<^verbatim>\<open>random.randint\<close>, and the
  condition \<^verbatim>\<open>random.random() > 0.5\<close> before \<^verbatim>\<open>uuid4()\<close>, which is called only when the
  condition holds.
\<close>

definition generate_event :: "env \<Rightarrow> world \<Rightarrow> nat \<times> world" where
  "generate_event env w =
     (let (et, w1) = random_choice env [''click'', ''view'', ''purchase''] w;
          (now, w2) = datetime_now env w1;
          (d, w3) = random_randint env 0 10 w2;
          (r, w4) = random_random env w3;
          (uid, w5) = (if r > 0.5 then (let (u, w') = uuid4 env w4 in (Some u, w'))
                       else (None, w4));
          (u, w6) = random_choice env
                      [Some ''http://example.com'', Some ''http://test.com'', None] w5
      in new_Event \<lparr>event_type = et, timestamp = now - timedelta_days d,
                     user_id = uid, url = u\<rparr> w6)"

text \<open>\<^verbatim>\<open>for _ in range(num_events)\<close>: \<open>n\<close> rounds, none when \<^verbatim>\<open>num_events\<close> is negative.\<close>

fun generate_events_loop :: "env \<Rightarrow> nat \<Rightarrow> world \<Rightarrow> nat list \<times> world" where
  "generate_events_loop env 0 w = ([], w)"
| "generate_events_loop env (Suc n) w =
     (let (r, w1) = generate_event env w;
          (rs, w2) = generate_events_loop env n w1
      in (r # rs, w2))"

definition generate_events :: "env \<Rightarrow> int \<Rightarrow> world \<Rightarrow> nat list \<times> world" where
  "generate_events env num_events w = generate_events_loop env (nat num_events) w"
section \<open>Calls that may raise\<close>

text \<open>
  A computation of the program takes the world and gives an outcome and the world after
  it. \<open>io_bind\<close> is sequencing: an exception ends the sequence. \<open>try_except\<close> is
  \<^verbatim>\<open>try: ... except Exception as e: ...\<close>, which catches every exception of the model.
\<close>

type_synonym 'a io = "world \<Rightarrow> 'a outcome \<times> world"

definition io_return :: "'a \<Rightarrow> 'a io" where
  "io_return x w = (Return x, w)"

definition io_raise :: "exn \<Rightarrow> 'a io" where
  "io_raise e w = (Raise e, w)"

definition io_bind :: "'a io \<Rightarrow> ('a \<Rightarrow> 'b io) \<Rightarrow> 'b io" where
  "io_bind m f w = (case m w of (Return x, w1) \<Rightarrow> f x w1 | (Raise e, w1) \<Rightarrow> (Raise e, w1))"

definition io_lift :: "(world \<Rightarrow> 'a \<times> world) \<Rightarrow> 'a io" where
  "io_lift f w = (case f w of (x, w1) \<Rightarrow> (Return x, w1))"

definition try_except :: "'a io \<Rightarrow> (exn \<Rightarrow> 'a io) \<Rightarrow> 'a io" where
  "try_except m h w = (case m w of (Return x, w1) \<Rightarrow> (Return x, w1) | (Raise e, w1) \<Rightarrow> h e w1)"

text \<open>A call on the logger appends a line to the log; it does not raise.\<close>

definition logger :: "log_entry \<Rightarrow> unit io" where
  "logger l w = (Return (), w\<lparr>log_lines := log_lines w @ [l]\<rparr>)"

subsection \<open>The ClickHouse client\<close>

text \<open>
  A call on the client is recorded, then it either raises in transit (the \<open>env\<close> says
  so), or the server executes it: the server raises, or the call returns the server's
  rows and its summary.
\<close>

record ch_result =
  summary :: string
  result_rows :: "row list"

definition client_call :: "env \<Rightarrow> ch_call \<Rightarrow> ch_result io" where
  "client_call env c w =
     (let k = length (ch_calls w); w1 = w\<lparr>ch_calls := ch_calls w @ [c]\<rparr> in
      case ch_fail env k of
        Some e \<Rightarrow> (Raise e, w1)
      | None \<Rightarrow>
          (case ch_exec c (ch_state w) of
             Inl e \<Rightarrow> (Raise e, w1)
           | Inr (rows, s) \<Rightarrow>
               (Return \<lparr>summary = ch_reply env k, result_rows = rows\<rparr>, w1\<lparr>ch_state := s\<rparr>)))"

definition get_client :: "env \<Rightarrow> unit io" where
  "get_client env = (case ch_connect_fail env of Some e \<Rightarrow> io_raise e | None \<Rightarrow> io_return ())"

subsection \<open>The Vertica connection\<close>

text \<open>
  Every operation on the connection (\<^verbatim>\<open>cursor()\<close>, \<^verbatim>\<open>execute\<close>, \<^verbatim>\<open>fetchall\<close>) takes the
  next answer of \<open>vt_fail\<close>; \<^verbatim>\<open>execute\<close> records its statement first. Leaving the
  \<^verbatim>\<open>with\<close> block closes the cursor, which sends nothing.
\<close>

definition vertica_connect :: "env \<Rightarrow> unit io" where
  "vertica_connect env = (case vt_connect_fail env of Some e \<Rightarrow> io_raise e | None \<Rightarrow> io_return ())"

definition vt_op :: "env \<Rightarrow> unit io" where
  "vt_op env w =
     (let w1 = w\<lparr>vt_ops := Suc (vt_ops w)\<rparr> in
      case vt_fail env (vt_ops w) of Some e \<Rightarrow> (Raise e, w1) | None \<Rightarrow> (Return (), w1))"

definition cursor :: "env \<Rightarrow> unit io" where
  "cursor env = vt_op env"

definition cursor_execute :: "env \<Rightarrow> string \<Rightarrow> row option \<Rightarrow> unit io" where
  "cursor_execute env sql params w =
     vt_op env (w\<lparr>vt_stmts := vt_stmts w @ [Execute sql params]\<rparr>)"

definition cursor_fetchall :: "env \<Rightarrow> unit io" where
  "cursor_fetchall env = vt_op env"

section \<open>The ClickHouse loader\<close>

text \<open>\<^verbatim>\<open>f"{self.settings.database}.{self.settings.table}"\<close>\<close>

definition qualified_name :: "string \<Rightarrow> string \<Rightarrow> string" where
  "qualified_name d t = d @ ''.'' @ t"

definition events_columns :: "(string \<times> string) list" where
  "events_columns =
     [(''event_type'', ''String''), (''timestamp'', ''DateTime64''),
      (''user_id'', ''UUID NULL''), (''url'', ''String NULL'')]"

definition init_clickhouse :: "env \<Rightarrow> ClickhouseSettings \<Rightarrow> unit io" where
  "init_clickhouse env settings =
     io_bind (logger (INFO ''Initializing ClickHouse'')) (\<lambda>_.
     try_except
       (io_bind (client_call env (Command (CreateDatabaseIfNotExists (ch_database settings)))) (\<lambda>_.
        io_bind (client_call env (Command (Use (ch_database settings)))) (\<lambda>_.
        io_bind (client_call env (Command (DropTableIfExists
                   (qualified_name (ch_database settings) (ch_table settings))))) (\<lambda>result.
        io_bind (logger (INFO (''DROP db result: '' @ summary result))) (\<lambda>_.
        io_bind (logger (INFO (''Creating table: '' @ ch_table settings @
                   '' in database: '' @ ch_database settings))) (\<lambda>_.
        io_bind (client_call env (Command (CreateTableIfNotExists
                   (qualified_name (ch_database settings) (ch_table settings))
                   events_columns ''Engine=MergeTree() ORDER BY timestamp''))) (\<lambda>_.
        logger (INFO (''Table '' @ [CHR 0x27] @ ch_table settings @ [CHR 0x27] @
                   '' created successfully in database '' @ [CHR 0x27] @
                   ch_database settings @ [CHR 0x27] @ ''.'')))))))))
       (\<lambda>e. logger (EXCEPTION ''An error occurred during ClickHouse initialization'' e)))"

text \<open>\<^verbatim>\<open>ClickhouseLoader.__init__\<close>: connect, then initialise. The loader is its settings.\<close>

definition ClickhouseLoader_init :: "env \<Rightarrow> ClickhouseSettings \<Rightarrow> ClickhouseSettings io" where
  "ClickhouseLoader_init env settings =
     io_bind (get_client env) (\<lambda>_.
     io_bind (init_clickhouse env settings) (\<lambda>_.
     io_return settings))"

definition load_batch :: "env \<Rightarrow> ClickhouseSettings \<Rightarrow> nat list \<Rightarrow> unit io" where
  "load_batch env settings event_batch w =
     (if event_batch = [] then (Return (), w)
      else
        let column_names = model_fields_keys;
            data = map (\<lambda>event. model_dump_values (heap w event)) event_batch
        in try_except
             (io_bind (client_call env (Insert ''example.events'' data column_names)) (\<lambda>result.
              logger (INFO (''Loaded batch with result '' @ summary result))))
             (\<lambda>e. logger (EXCEPTION (''Error while loading batch into ClickHouse: '' @ exn_str e) e))
             w)"

definition read_data :: "env \<Rightarrow> ClickhouseSettings \<Rightarrow> real io" where
  "read_data env settings =
     io_bind (io_lift (time_time env)) (\<lambda>start_time.
     io_bind (client_call env (Query (SelectAllFrom
                (qualified_name (ch_database settings) (ch_table settings))))) (\<lambda>query_result.
     io_bind (io_lift (time_time env)) (\<lambda>t.
     io_return (t - start_time))))"

section \<open>The Vertica side\<close>

text \<open>
  A \<^verbatim>\<open>DatabaseManager\<close> holds the Vertica settings and the ClickHouse loader. Its third
  attribute, the Vertica connection, is the Vertica part of the world.
\<close>

record DatabaseManager =
  vertica_settings :: VerticaSettings
  clickhouse_loader :: ClickhouseSettings

text \<open>
  \<^verbatim>\<open>connect_to_vertica\<close>: the \<^verbatim>\<open>except\<close> clause catches the driver's own
  \<^verbatim>\<open>ConnectionError\<close> only, logs it and falls through to \<^verbatim>\<open>raise ConnectionError()\<close>;
  any other exception leaves the method as it is.
\<close>

definition connect_to_vertica :: "env \<Rightarrow> DatabaseManager \<Rightarrow> unit io" where
  "connect_to_vertica env self =
     (let connection_info =
            [(''host'', PyStr (vt_host (vertica_settings self))),
             (''port'', PyInt (vt_port (vertica_settings self))),
             (''user'', PyStr (vt_user (vertica_settings self))),
             (''password'', PyStr (vt_password (vertica_settings self))),
             (''database'', PyStr (vt_database (vertica_settings self))),
             (''autocommit'', PyBool True)]
      in io_bind (logger (INFO_dict connection_info)) (\<lambda>_ w.
           case vertica_connect env w of
             (Return connection, w1) \<Rightarrow>
               io_bind (logger (INFO ''Connected to Vertica successfully'')) (\<lambda>_.
               io_return connection) w1
           | (Raise (VerticaConnectionError m), w1) \<Rightarrow>
               io_bind (logger (ERROR (''connect to Vertica failed: '' @ m))) (\<lambda>_.
               io_raise ConnectionError) w1
           | (Raise e, w1) \<Rightarrow> (Raise e, w1)))"

text \<open>\<^verbatim>\<open>DatabaseManager.__init__\<close>\<close>

definition DatabaseManager_init ::
    "env \<Rightarrow> ClickhouseSettings \<Rightarrow> VerticaSettings \<Rightarrow> DatabaseManager io" where
  "DatabaseManager_init env clickhouse_settings vertica_settings' =
     io_bind (ClickhouseLoader_init env clickhouse_settings) (\<lambda>loader.
     let self = \<lparr>vertica_settings = vertica_settings', clickhouse_loader = loader\<rparr>
     in io_bind (connect_to_vertica env self) (\<lambda>connection.
        io_return self))"

text \<open>
  \<^verbatim>\<open>create_vertica_table\<close> and \<^verbatim>\<open>read_data_from_vertica\<close> read the module-level
  \<^verbatim>\<open>settings\<close>, here the parameter \<open>settings\<close>.
\<close>

definition create_vertica_table :: "env \<Rightarrow> Settings \<Rightarrow> unit io" where
  "create_vertica_table env settings =
     io_bind (logger (INFO ''Creating Vertica table'')) (\<lambda>_.
     try_except
       (io_bind (cursor env) (\<lambda>cursor'.
        io_bind (logger (INFO (''Creating table: '' @ vt_table (vertica settings) @
                   '' in schema: '' @ vertica_schema (vertica settings)))) (\<lambda>_.
        io_bind (cursor_execute env
                   (''CREATE TABLE IF NOT EXISTS '' @ vertica_schema (vertica settings) @ ''.'' @
                    vt_table (vertica settings) @ '' ('' @
                    ''event_type VARCHAR(255), '' @
                    ''timestamp TIMESTAMP, '' @
                    ''user_id UUID NULL, '' @
                    ''url VARCHAR(255) NULL)'') None) (\<lambda>_.
        logger (INFO (''Table '' @ [CHR 0x27] @ vt_table (vertica settings) @ [CHR 0x27] @
                   '' created successfully in schema '' @ [CHR 0x27] @
                   vertica_schema (vertica settings) @ [CHR 0x27] @ ''.''))))))
       (\<lambda>e. logger (EXCEPTION ''An error occurred while creating the Vertica table'' e)))"

definition read_data_from_vertica :: "env \<Rightarrow> Settings \<Rightarrow> real io" where
  "read_data_from_vertica env settings =
     io_bind (io_lift (time_time env)) (\<lambda>start_time.
     io_bind (cursor env) (\<lambda>cur.
     io_bind (cursor_execute env
                (''SELECT * FROM '' @ vertica_schema (vertica settings) @ ''.'' @
                 vt_table (vertica settings)) None) (\<lambda>_.
     io_bind (cursor_fetchall env) (\<lambda>rows.
     io_bind (io_lift (time_time env)) (\<lambda>t.
     io_return (t - start_time))))))"

section \<open>The two write paths\<close>

definition load_data_to_clickhouse :: "env \<Rightarrow> nat list \<Rightarrow> ClickhouseSettings \<Rightarrow> real io" where
  "load_data_to_clickhouse env events loader =
     io_bind (io_lift (time_time env)) (\<lambda>start_time.
     io_bind (load_batch env loader events) (\<lambda>_.
     io_bind (io_lift (time_time env)) (\<lambda>t.
     io_return (t - start_time))))"

text \<open>\<^verbatim>\<open>for d in data: cur.execute("INSERT INTO public.events VALUES (%s, %s, %s, %s)", d)\<close>\<close>

fun execute_inserts :: "env \<Rightarrow> row list \<Rightarrow> unit io" where
  "execute_inserts env [] = io_return ()"
| "execute_inserts env (d # ds) =
     io_bind (cursor_execute env ''INSERT INTO public.events VALUES (%s, %s, %s, %s)'' (Some d))
       (\<lambda>_. execute_inserts env ds)"

definition load_data_to_vertica :: "env \<Rightarrow> nat list \<Rightarrow> real io" where
  "load_data_to_vertica env events =
     io_bind (io_lift (time_time env)) (\<lambda>start_time.
     io_bind (cursor env) (\<lambda>cur w.
       let data = map (\<lambda>event. (event_type (heap w event), timestamp (heap w event),
                                user_id (heap w event), url (heap w event))) events
       in io_bind (execute_inserts env data) (\<lambda>_.
          io_bind (cursor_execute env ''COMMIT'' None) (\<lambda>_.
          io_bind (io_lift (time_time env)) (\<lambda>t.
          io_return (t - start_time)))) w))"

section \<open>The orchestrator\<close>

text \<open>
  \<^verbatim>\<open>main\<close> returns the dictionary of the four times, or \<^verbatim>\<open>None\<close> when an exception
  reached its \<^verbatim>\<open>except Exception\<close> clause.
\<close>

definition main :: "env \<Rightarrow> Settings \<Rightarrow> (string \<rightharpoonup> real) option io" where
  "main env settings =
     try_except
       (io_bind (logger (INFO ''Starting data generation and loading process'')) (\<lambda>_.
        io_bind (DatabaseManager_init env (clickhouse settings) (vertica settings)) (\<lambda>db_manager.
        io_bind (init_clickhouse env (clickhouse_loader db_manager)) (\<lambda>_.
        io_bind (create_vertica_table env settings) (\<lambda>_.
        io_bind (io_lift (generate_events env 1000)) (\<lambda>events.
        io_bind (load_data_to_clickhouse env events (clickhouse_loader db_manager))
          (\<lambda>clickhouse_write_time.
        io_bind (load_data_to_vertica env events) (\<lambda>vertica_write_time.
        io_bind (read_data env (clickhouse_loader db_manager)) (\<lambda>clickhouse_read_time.
        io_bind (read_data_from_vertica env settings) (\<lambda>vertica_read_time.
        io_bind (logger (INFO_float ''ClickHouse write time: '' clickhouse_write_time
                   '' seconds'')) (\<lambda>_.
        io_bind (logger (INFO_float ''Vertica write time: '' vertica_write_time
                   ''  seconds'')) (\<lambda>_.
        io_bind (logger (INFO_float ''ClickHouse read time: '' clickhouse_read_time
                   '' seconds'')) (\<lambda>_.
        io_bind (logger (INFO_float ''Vertica read time: '' vertica_read_time
                   '' seconds'')) (\<lambda>_.
        io_return (Some
          [''clickhouse_write_time'' \<mapsto> clickhouse_write_time,
           ''vertica_write_time'' \<mapsto> vertica_write_time,
           ''clickhouse_read_time'' \<mapsto> clickhouse_read_time,
           ''vertica_read_time'' \<mapsto> vertica_read_time])))))))))))))))
       (\<lambda>e. io_bind (logger (EXCEPTION ''Unhandled exception'' e)) (\<lambda>_. io_return None))"

text \<open>
  The statements \<^verbatim>\<open>main\<close> executes on the Vertica connection, under a configuration: the
  insert into \<^verbatim>\<open>public.events\<close> with a row of parameters, \<^verbatim>\<open>COMMIT\<close>, and the creation and
  the reading of the configured table. \<open>only_main_statements\<close>: from one world to a later
  one the executed statements were extended, by such statements only.
\<close>

definition main_statement :: "Settings \<Rightarrow> vt_stmt \<Rightarrow> bool" where
  "main_statement settings st \<longleftrightarrow>
     (\<exists>d. st = Execute ''INSERT INTO public.events VALUES (%s, %s, %s, %s)'' (Some d)) \<or>
     st = Execute ''COMMIT'' None \<or>
     st = Execute (''CREATE TABLE IF NOT EXISTS '' @ vertica_schema (vertica settings) @ ''.'' @
                   vt_table (vertica settings) @
                   '' (event_type VARCHAR(255), timestamp TIMESTAMP, user_id UUID NULL, url VARCHAR(255) NULL)'')
            None \<or>
     st = Execute (''SELECT * FROM '' @ vertica_schema (vertica settings) @ ''.'' @
                   vt_table (vertica settings)) None"

definition only_main_statements :: "Settings \<Rightarrow> world \<Rightarrow> world \<Rightarrow> bool" where
  "only_main_statements settings a b \<longleftrightarrow>
     (\<exists>new. vt_stmts b = vt_stmts a @ new \<and> (\<forall>st \<in> set new. main_statement settings st))"

section \<open>Sample environments\<close>

text \<open>
  A run in which every call succeeds, from an empty log and a ClickHouse server that has
  its \<^verbatim>\<open>default\<close> database only.
\<close>

definition env0 :: env where
  "env0 =
     \<lparr>rand_raw = (\<lambda>k. if k = 2 then 2 ^ 53 - 1 else k),
      uuid_raw = (\<lambda>k. UUID (100 + k)),
      now_raw = (\<lambda>k. 1000000000000000 + int k),
      time_raw = (\<lambda>k. real k),
      ch_connect_fail = None, ch_fail = (\<lambda>k. None), ch_reply = (\<lambda>k. ''''),
      vt_connect_fail = None, vt_fail = (\<lambda>k. None)\<rparr>"

definition w0 :: world where
  "w0 =
     \<lparr>rand_pos = 0, uuid_pos = 0, now_pos = 0, time_pos = 0,
      heap = (\<lambda>a. \<lparr>event_type = '''', timestamp = 0, user_id = None, url = None\<rparr>),
      heap_next = 0, log_lines = [], ch_calls = [],
      ch_state = \<lparr>databases = {''default''}, current_db = ''default'', tables = Map.empty\<rparr>,
      vt_ops = 0, vt_stmts = []\<rparr>"

section \<open>Frames\<close>

text \<open>
  What a step leaves alone: the generator's part of the world (the random source, the
  entropy for \<^verbatim>\<open>uuid4\<close>, the clock of \<^verbatim>\<open>datetime.now()\<close> and the \<^verbatim>\<open>Event\<close> objects), the
  clock of \<^verbatim>\<open>time.time()\<close>, the Vertica connection, the ClickHouse client and server.
\<close>

definition same_generator :: "world \<Rightarrow> world \<Rightarrow> bool" where
  "same_generator a b \<longleftrightarrow>
     rand_pos b = rand_pos a \<and> uuid_pos b = uuid_pos a \<and> now_pos b = now_pos a \<and>
     heap b = heap a \<and> heap_next b = heap_next a"

definition same_clock :: "world \<Rightarrow> world \<Rightarrow> bool" where
  "same_clock a b \<longleftrightarrow> time_pos b = time_pos a"

definition same_vertica :: "world \<Rightarrow> world \<Rightarrow> bool" where
  "same_vertica a b \<longleftrightarrow> vt_ops b = vt_ops a \<and> vt_stmts b = vt_stmts a"

definition same_clickhouse :: "world \<Rightarrow> world \<Rightarrow> bool" where
  "same_clickhouse a b \<longleftrightarrow> ch_calls b = ch_calls a \<and> ch_state b = ch_state a"

text \<open>
  The world after \<^verbatim>\<open>generate_events(2)\<close> in that run, and a run in which the second
  operation on the Vertica connection (the first \<^verbatim>\<open>execute\<close>) raises.
\<close>

definition w_events :: world where
  "w_events = snd (generate_events env0 2 w0)"

definition env_insert_fails :: env where
  "env_insert_fails =
     env0\<lparr>vt_fail := (\<lambda>k. if k = 1 then Some (DriverError ''insert failed'') else None)\<rparr>"

text \<open>
  A run in which the eighth call on the ClickHouse client raises: the \<^verbatim>\<open>CREATE TABLE\<close> of
  the second \<^verbatim>\<open>init_clickhouse\<close>. A run in which the fourth call raises: the
  \<^verbatim>\<open>CREATE TABLE\<close> of the first. A configuration that does not use the default names.
\<close>

definition env_second_create_fails :: env where
  "env_second_create_fails =
     env0\<lparr>ch_fail := (\<lambda>k. if k = 7 then Some (DriverError ''connection lost'') else None)\<rparr>"

definition env_create_fails :: env where
  "env_create_fails =
     env0\<lparr>ch_fail := (\<lambda>k. if k = 3 then Some (DriverError ''connection lost'') else None)\<rparr>"

definition settings_bench :: Settings where
  "settings_bench =
     \<lparr>clickhouse = ClickhouseSettings_default\<lparr>ch_database := ''bench''\<rparr>,
      vertica = VerticaSettings_default\<lparr>vertica_schema := ''bench'', vt_table := ''hits''\<rparr>\<rparr>"

definition settings_default :: Settings where
  "settings_default =
     \<lparr>clickhouse = ClickhouseSettings_default, vertica = VerticaSettings_default\<rparr>"

text \<open>
  A run in which the system clock is set back by a second between any two readings of
  \<^verbatim>\<open>time.time()\<close>, and a run in which Vertica refuses the connection.
\<close>

definition env_clock_back :: env where
  "env_clock_back = env0\<lparr>time_raw := (\<lambda>k. 1000 - real k)\<rparr>"

definition env_vertica_down :: env where
  "env_vertica_down =
     env0\<lparr>vt_connect_fail := Some (VerticaConnectionError ''connection refused'')\<rparr>"

section \<open>The event generator: proofs\<close>

lemma random_gt_half: "(real (k mod 2 ^ 53) / 2 ^ 53 > 0.5) = (k mod 2 ^ 53 > 2 ^ 52)"
  by (simp add: field_simps)



lemma generate_event_eq:
  "generate_event env w =
    (heap_next w,
     w\<lparr>rand_pos := Suc (Suc (Suc (Suc (rand_pos w)))), now_pos := Suc (now_pos w),
       uuid_pos := (if rand_raw env (Suc (Suc (rand_pos w))) mod 2 ^ 53 > 2 ^ 52 then Suc (uuid_pos w) else uuid_pos w),
       heap := (heap w)(heap_next w :=
         \<lparr>event_type = [''click'', ''view'', ''purchase''] ! (rand_raw env (rand_pos w) mod 3),
          timestamp = now_raw env (now_pos w) - timedelta_days (int (rand_raw env (Suc (rand_pos w)) mod 11)),
          user_id = (if rand_raw env (Suc (Suc (rand_pos w))) mod 2 ^ 53 > 2 ^ 52 then Some (uuid_raw env (uuid_pos w)) else None),
          url = [Some ''http://example.com'', Some ''http://test.com'', None] ! (rand_raw env (Suc (Suc (Suc (rand_pos w)))) mod 3)\<rparr>),
       heap_next := Suc (heap_next w)\<rparr>)"
  by (simp add: generate_event_def random_choice_def randbelow_def datetime_now_def random_randint_def
      random_random_def uuid4_def new_Event_def random_gt_half Let_def)


lemma generate_events_loop_frame:
  "generate_events_loop env n w = (rs, w') \<Longrightarrow>
     rs = [heap_next w ..< heap_next w + n] \<and> heap_next w' = heap_next w + n \<and>
     now_pos w' = now_pos w + n \<and> rand_pos w' = rand_pos w + 4 * n \<and>
     uuid_pos w \<le> uuid_pos w' \<and> uuid_pos w' \<le> uuid_pos w + n \<and>
     (\<forall>a < heap_next w. heap w' a = heap w a) \<and>
     time_pos w' = time_pos w \<and> log_lines w' = log_lines w \<and> ch_calls w' = ch_calls w \<and>
     ch_state w' = ch_state w \<and> vt_ops w' = vt_ops w \<and> vt_stmts w' = vt_stmts w"
proof (induction n arbitrary: w rs w')
  case 0
  then show ?case by simp
next
  case (Suc n)
  obtain r w1 where g: "generate_event env w = (r, w1)" by (cases "generate_event env w")
  obtain rs1 w2 where l: "generate_events_loop env n w1 = (rs1, w2)"
    by (cases "generate_events_loop env n w1")
  from Suc.prems g l have eq: "rs = r # rs1" "w' = w2" by simp_all
  note ih = Suc.IH [OF l]
  from g have r: "r = heap_next w" and w1: "heap_next w1 = Suc (heap_next w)"
    "now_pos w1 = Suc (now_pos w)" "rand_pos w1 = rand_pos w + 4"
    "uuid_pos w \<le> uuid_pos w1" "uuid_pos w1 \<le> Suc (uuid_pos w)"
    "\<forall>a < heap_next w. heap w1 a = heap w a"
    "time_pos w1 = time_pos w" "log_lines w1 = log_lines w" "ch_calls w1 = ch_calls w"
    "ch_state w1 = ch_state w" "vt_ops w1 = vt_ops w" "vt_stmts w1 = vt_stmts w"
    by (auto simp: generate_event_eq)
  show ?case using ih eq r w1 by (simp add: upt_conv_Cons)
qed


lemma generate_events_loop_events:
  "generate_events_loop env n w = (rs, w') \<Longrightarrow> i < n \<Longrightarrow>
     event_type (heap w' (heap_next w + i)) \<in> {''click'', ''view'', ''purchase''} \<and>
     (\<exists>d. 0 \<le> d \<and> d \<le> 10 \<and>
        timestamp (heap w' (heap_next w + i)) = now_raw env (now_pos w + i) - timedelta_days d) \<and>
     (user_id (heap w' (heap_next w + i)) = None \<or>
      (\<exists>k. uuid_pos w \<le> k \<and> k < uuid_pos w' \<and>
         user_id (heap w' (heap_next w + i)) = Some (uuid_raw env k))) \<and>
     url (heap w' (heap_next w + i)) \<in> {Some ''http://example.com'', Some ''http://test.com'', None}"
proof (induction n arbitrary: w rs w' i)
  case 0
  then show ?case by simp
next
  case (Suc n)
  obtain r w1 where g: "generate_event env w = (r, w1)" by (cases "generate_event env w")
  obtain rs1 w2 where l: "generate_events_loop env n w1 = (rs1, w2)"
    by (cases "generate_events_loop env n w1")
  from Suc.prems(1) g l have eq: "w' = w2" by simp
  note fr = generate_events_loop_frame [OF l]
  from g have w1: "heap_next w1 = Suc (heap_next w)" "now_pos w1 = Suc (now_pos w)"
    "uuid_pos w \<le> uuid_pos w1"
    by (auto simp: generate_event_eq)
  show ?case
  proof (cases i)
    case 0
    have h: "heap w' (heap_next w) = heap w1 (heap_next w)"
      using fr w1 eq by simp
    have m3: "\<And>k::nat. k mod 3 = 0 \<or> k mod 3 = 1 \<or> k mod 3 = 2" by presburger
    have e1: "event_type (heap w1 (heap_next w)) \<in> {''click'', ''view'', ''purchase''}"
      using g m3 [of "rand_raw env (rand_pos w)"] by (auto simp: generate_event_eq)
    have e2: "\<exists>d. 0 \<le> d \<and> d \<le> 10 \<and>
        timestamp (heap w1 (heap_next w)) = now_raw env (now_pos w) - timedelta_days d"
    proof -
      have "timestamp (heap w1 (heap_next w)) =
          now_raw env (now_pos w) - timedelta_days (int (rand_raw env (Suc (rand_pos w)) mod 11))"
        using g by (auto simp: generate_event_eq)
      moreover have "int (rand_raw env (Suc (rand_pos w)) mod 11) \<le> 10" by simp
      ultimately show ?thesis by (metis of_nat_0_le_iff)
    qed
    have e3: "user_id (heap w1 (heap_next w)) = None \<or>
        (uuid_pos w < uuid_pos w1 \<and> user_id (heap w1 (heap_next w)) = Some (uuid_raw env (uuid_pos w)))"
      using g by (auto simp: generate_event_eq split: if_splits)
    have e4: "url (heap w1 (heap_next w)) \<in> {Some ''http://example.com'', Some ''http://test.com'', None}"
      using g m3 [of "rand_raw env (Suc (Suc (Suc (rand_pos w))))"] by (auto simp: generate_event_eq)
    have e3': "user_id (heap w1 (heap_next w)) = None \<or>
      (\<exists>k. uuid_pos w \<le> k \<and> k < uuid_pos w' \<and>
         user_id (heap w1 (heap_next w)) = Some (uuid_raw env k))"
      using e3 fr eq by (metis le_refl less_le_trans)
    show ?thesis using 0 h e1 e2 e3' e4 by simp
  next
    case (Suc j)
    with Suc.prems have j: "j < n" by simp
    note ih = Suc.IH [OF l j]
    have idx: "heap_next w1 + j = heap_next w + i" "now_pos w1 + j = now_pos w + i"
      using w1 Suc by simp_all
    from ih have u: "user_id (heap w2 (heap_next w1 + j)) = None \<or>
      (\<exists>k. uuid_pos w \<le> k \<and> k < uuid_pos w2 \<and>
         user_id (heap w2 (heap_next w1 + j)) = Some (uuid_raw env k))"
      using w1(3) by (meson le_trans)
    show ?thesis using ih u unfolding idx eq by blast
  qed
qed


lemma generate_events_loop_fresh:
  "generate_events_loop env n w = (rs, w') \<Longrightarrow>
     List.map_filter (\<lambda>a. user_id (heap w' a)) rs = map (uuid_raw env) [uuid_pos w ..< uuid_pos w']"
proof (induction n arbitrary: w rs w')
  case 0
  then show ?case by (simp add: List.map_filter_simps)
next
  case (Suc n)
  obtain r w1 where g: "generate_event env w = (r, w1)" by (cases "generate_event env w")
  obtain rs1 w2 where l: "generate_events_loop env n w1 = (rs1, w2)"
    by (cases "generate_events_loop env n w1")
  from Suc.prems g l have eq: "rs = r # rs1" "w' = w2" by simp_all
  note fr = generate_events_loop_frame [OF l]
  note ih = Suc.IH [OF l]
  from g have r: "r = heap_next w" and w1: "heap_next w1 = Suc (heap_next w)"
    by (auto simp: generate_event_eq)
  have h: "heap w2 r = heap w1 r" using fr r w1 by simp
  from g have c: "(user_id (heap w1 r) = None \<and> uuid_pos w1 = uuid_pos w) \<or>
      (user_id (heap w1 r) = Some (uuid_raw env (uuid_pos w)) \<and> uuid_pos w1 = Suc (uuid_pos w))"
    by (auto simp: generate_event_eq)
  then show ?case
  proof
    assume a: "user_id (heap w1 r) = None \<and> uuid_pos w1 = uuid_pos w"
    then show ?thesis using ih h eq by (simp add: List.map_filter_simps)
  next
    assume a: "user_id (heap w1 r) = Some (uuid_raw env (uuid_pos w)) \<and> uuid_pos w1 = Suc (uuid_pos w)"
    then have "uuid_pos w < uuid_pos w2" using fr by simp
    then have "[uuid_pos w ..< uuid_pos w2] = uuid_pos w # [uuid_pos w1 ..< uuid_pos w2]"
      using a by (simp add: upt_conv_Cons)
    then show ?thesis using ih h eq a by (simp add: List.map_filter_simps)
  qed
qed

text \<open>
  Claim C1. For every \<open>count \<ge> 0\<close>, \<^verbatim>\<open>generate_events(count)\<close> returns a list of exactly
  \<open>count\<close> events, each a distinct new object. The \<open>i\<close>-th event has an \<^verbatim>\<open>event_type\<close>
  among \<^verbatim>\<open>click\<close>, \<^verbatim>\<open>view\<close>, \<^verbatim>\<open>purchase\<close> (so it is not empty); its \<^verbatim>\<open>timestamp\<close> is the
  \<open>i\<close>-th reading of \<^verbatim>\<open>datetime.now()\<close> made by the call minus a whole number of days
  between 0 and 10, hence within the ten days before that reading; its \<^verbatim>\<open>user_id\<close> is
  absent or the result of a \<^verbatim>\<open>uuid4()\<close> call made by this call; its \<^verbatim>\<open>url\<close> is one of the
  two sample URLs or absent. Fresh: the user ids present, in order, are exactly the
  results of the \<^verbatim>\<open>uuid4()\<close> calls made, each used once.
\<close>

theorem generate_events_spec:
  assumes "0 \<le> count" and "generate_events env count w = (evs, w')"
  shows "int (length evs) = count \<and> distinct evs \<and>
    (\<forall>i < length evs.
       event_type (heap w' (evs ! i)) \<in> {''click'', ''view'', ''purchase''} \<and>
       event_type (heap w' (evs ! i)) \<noteq> [] \<and>
       (\<exists>d. 0 \<le> d \<and> d \<le> 10 \<and>
          timestamp (heap w' (evs ! i)) = now_raw env (now_pos w + i) - timedelta_days d) \<and>
       now_raw env (now_pos w + i) - timedelta_days 10 \<le> timestamp (heap w' (evs ! i)) \<and>
       timestamp (heap w' (evs ! i)) \<le> now_raw env (now_pos w + i) \<and>
       (user_id (heap w' (evs ! i)) = None \<or>
        (\<exists>k. uuid_pos w \<le> k \<and> k < uuid_pos w' \<and>
           user_id (heap w' (evs ! i)) = Some (uuid_raw env k))) \<and>
       url (heap w' (evs ! i)) \<in> {Some ''http://example.com'', Some ''http://test.com'', None}) \<and>
    List.map_filter (\<lambda>a. user_id (heap w' a)) evs = map (uuid_raw env) [uuid_pos w ..< uuid_pos w']"
proof -
  from assms(2) have l: "generate_events_loop env (nat count) w = (evs, w')"
    by (simp add: generate_events_def)
  note fr = generate_events_loop_frame [OF l]
  have len: "length evs = nat count" using fr by simp
  have c1: "int (length evs) = count" using len assms(1) by simp
  have c2: "distinct evs" using fr by simp
  have c3: "event_type (heap w' (evs ! i)) \<in> {''click'', ''view'', ''purchase''} \<and>
       event_type (heap w' (evs ! i)) \<noteq> [] \<and>
       (\<exists>d. 0 \<le> d \<and> d \<le> 10 \<and>
          timestamp (heap w' (evs ! i)) = now_raw env (now_pos w + i) - timedelta_days d) \<and>
       now_raw env (now_pos w + i) - timedelta_days 10 \<le> timestamp (heap w' (evs ! i)) \<and>
       timestamp (heap w' (evs ! i)) \<le> now_raw env (now_pos w + i) \<and>
       (user_id (heap w' (evs ! i)) = None \<or>
        (\<exists>k. uuid_pos w \<le> k \<and> k < uuid_pos w' \<and>
           user_id (heap w' (evs ! i)) = Some (uuid_raw env k))) \<and>
       url (heap w' (evs ! i)) \<in> {Some ''http://example.com'', Some ''http://test.com'', None}"
    if i: "i < length evs" for i
  proof -
    from i len have i': "i < nat count" by simp
    have nth: "evs ! i = heap_next w + i" using fr i' by simp
    note ev = generate_events_loop_events [OF l i', folded nth]
    from ev obtain d where d: "0 \<le> d" "d \<le> 10"
      "timestamp (heap w' (evs ! i)) = now_raw env (now_pos w + i) - timedelta_days d" by blast
    have ne: "event_type (heap w' (evs ! i)) \<noteq> []" using ev by auto
    have lo: "now_raw env (now_pos w + i) - timedelta_days 10 \<le> timestamp (heap w' (evs ! i))"
      using d by (simp add: timedelta_days_def)
    have hi: "timestamp (heap w' (evs ! i)) \<le> now_raw env (now_pos w + i)"
      using d by (simp add: timedelta_days_def)
    show ?thesis using ev ne lo hi by blast
  qed
  have c4: "List.map_filter (\<lambda>a. user_id (heap w' a)) evs = map (uuid_raw env) [uuid_pos w ..< uuid_pos w']"
    by (rule generate_events_loop_fresh [OF l])
  show ?thesis using c1 c2 c3 c4 by blast
qed



lemma generate_events_loop_numeral:
  "generate_events_loop env (numeral k) w =
     (let (r, w1) = generate_event env w;
          (rs, w2) = generate_events_loop env (pred_numeral k) w1
      in (r # rs, w2))"
  by (simp add: numeral_eq_Suc)

lemma generate_events_env0:
  "generate_events env0 2 w0 =
    ([0, 1],
     w0\<lparr>rand_pos := 8, now_pos := 2, uuid_pos := 1,
        heap := (heap w0)
          (0 := \<lparr>event_type = ''click'', timestamp = 999913600000000,
                 user_id = Some (UUID 100), url = Some ''http://example.com''\<rparr>,
           1 := \<lparr>event_type = ''view'', timestamp = 999568000000001,
                 user_id = None, url = Some ''http://test.com''\<rparr>),
        heap_next := 2\<rparr>)"
  by (simp add: generate_events_def generate_events_loop_numeral generate_event_eq env0_def w0_def timedelta_days_def)

theorem generate_events_spec_witness:
  "(0::int) \<le> 2 \<and> int (length (fst (generate_events env0 2 w0))) = 2 \<and>
   fst (generate_events env0 2 w0) = [0, 1] \<and>
   map (heap (snd (generate_events env0 2 w0))) [0, 1] =
     [\<lparr>event_type = ''click'', timestamp = now_raw env0 0 - timedelta_days 1,
        user_id = Some (uuid_raw env0 0), url = Some ''http://example.com''\<rparr>,
      \<lparr>event_type = ''view'', timestamp = now_raw env0 1 - timedelta_days 5,
        user_id = None, url = Some ''http://test.com''\<rparr>]"
proof -
  have h: "(0::int) \<le> 2" by simp
  have g: "generate_events env0 2 w0 = (fst (generate_events env0 2 w0), snd (generate_events env0 2 w0))"
    by simp
  from generate_events_spec [OF h g]
  have "int (length (fst (generate_events env0 2 w0))) = 2" by blast
  moreover have "now_raw env0 0 - timedelta_days 1 = 999913600000000"
    "now_raw env0 1 - timedelta_days 5 = 999568000000001" "uuid_raw env0 0 = UUID 100"
    by (simp_all add: env0_def timedelta_days_def)
  ultimately show ?thesis using h by (simp add: generate_events_env0)
qed

section \<open>Sequencing: helper lemmas\<close>

lemmas io_defs = io_bind_def io_return_def io_raise_def io_lift_def try_except_def logger_def

lemma io_bind_rel:
  assumes "\<And>a b c. R a b \<Longrightarrow> R b c \<Longrightarrow> R a c"
    and "\<And>v. R v (snd (m v))" and "\<And>x v. R v (snd (f x v))"
  shows "R w (snd (io_bind m f w))"
proof (cases "m w")
  case (Pair r w1)
  have 1: "R w w1" using assms(2) [of w] Pair by simp
  show ?thesis
  proof (cases r)
    case (Return x)
    have "R w1 (snd (f x w1))" by (rule assms(3))
    with 1 have "R w (snd (f x w1))" by (rule assms(1))
    then show ?thesis using Pair Return by (simp add: io_bind_def)
  next
    case (Raise e)
    then show ?thesis using Pair 1 by (simp add: io_bind_def)
  qed
qed

lemma try_except_rel:
  assumes "\<And>a b c. R a b \<Longrightarrow> R b c \<Longrightarrow> R a c"
    and "\<And>v. R v (snd (m v))" and "\<And>e v. R v (snd (h e v))"
  shows "R w (snd (try_except m h w))"
proof (cases "m w")
  case (Pair r w1)
  have 1: "R w w1" using assms(2) [of w] Pair by simp
  show ?thesis
  proof (cases r)
    case (Return x)
    then show ?thesis using Pair 1 by (simp add: try_except_def)
  next
    case (Raise e)
    have "R w1 (snd (h e w1))" by (rule assms(3))
    with 1 have "R w (snd (h e w1))" by (rule assms(1))
    then show ?thesis using Pair Raise by (simp add: try_except_def)
  qed
qed

section \<open>The Vertica write path: helper lemmas\<close>


lemma execute_inserts_ok:
  "(\<forall>k < length ds. vt_fail env (vt_ops w + k) = None) \<Longrightarrow>
   execute_inserts env ds w =
     (Return (), w\<lparr>vt_stmts := vt_stmts w @ map (\<lambda>d. Execute ''INSERT INTO public.events VALUES (%s, %s, %s, %s)'' (Some d)) ds,
                    vt_ops := vt_ops w + length ds\<rparr>)"
proof (induction ds arbitrary: w)
  case Nil
  then show ?case by (simp add: io_defs)
next
  case (Cons d ds)
  have h0: "vt_fail env (vt_ops w) = None" using Cons.prems by auto
  have hs: "\<forall>k < length ds. vt_fail env (Suc (vt_ops w) + k) = None"
    using Cons.prems by fastforce
  show ?case
    using h0 hs by (simp add: io_defs cursor_execute_def vt_op_def Cons.IH)
qed

lemma execute_inserts_prefix:
  "\<exists>n \<le> length ds.
     snd (execute_inserts env ds w) =
       w\<lparr>vt_stmts := vt_stmts w @ map (\<lambda>d. Execute ''INSERT INTO public.events VALUES (%s, %s, %s, %s)'' (Some d)) (take n ds),
         vt_ops := vt_ops w + n\<rparr> \<and>
     (fst (execute_inserts env ds w) = Return () \<longrightarrow> n = length ds) \<and>
     (\<forall>e. fst (execute_inserts env ds w) = Raise e \<longrightarrow> 0 < n \<and> vt_fail env (vt_ops w + n - 1) = Some e)"
proof (induction ds arbitrary: w)
  case Nil
  then show ?case by (simp add: io_defs)
next
  case (Cons d ds)
  let ?w1 = "w\<lparr>vt_stmts := vt_stmts w @ [Execute ''INSERT INTO public.events VALUES (%s, %s, %s, %s)'' (Some d)], vt_ops := Suc (vt_ops w)\<rparr>"
  show ?case
  proof (cases "vt_fail env (vt_ops w)")
    case None
    then have st: "execute_inserts env (d # ds) w = execute_inserts env ds ?w1"
      by (simp add: io_defs cursor_execute_def vt_op_def)
    from Cons.IH [of ?w1] obtain n where n: "n \<le> length ds"
      "snd (execute_inserts env ds ?w1) =
       ?w1\<lparr>vt_stmts := vt_stmts ?w1 @ map (\<lambda>d. Execute ''INSERT INTO public.events VALUES (%s, %s, %s, %s)'' (Some d)) (take n ds),
         vt_ops := vt_ops ?w1 + n\<rparr>"
      "fst (execute_inserts env ds ?w1) = Return () \<longrightarrow> n = length ds"
      "\<forall>e. fst (execute_inserts env ds ?w1) = Raise e \<longrightarrow> 0 < n \<and> vt_fail env (vt_ops ?w1 + n - 1) = Some e"
      by blast
    show ?thesis
      by (rule exI [of _ "Suc n"]) (use n st in simp)
  next
    case (Some e)
    then have st: "execute_inserts env (d # ds) w = (Raise e, ?w1)"
      by (simp add: io_defs cursor_execute_def vt_op_def)
    show ?thesis
      by (rule exI [of _ "Suc 0"]) (use st Some in simp)
  qed
qed


lemma load_data_to_vertica_ok:
  assumes "\<forall>k \<le> Suc (length events). vt_fail env (vt_ops w + k) = None"
  shows "load_data_to_vertica env events w =
     (Return (time_raw env (Suc (time_pos w)) - time_raw env (time_pos w)),
      w\<lparr>time_pos := Suc (Suc (time_pos w)),
        vt_stmts := vt_stmts w @
          map (\<lambda>a. Execute ''INSERT INTO public.events VALUES (%s, %s, %s, %s)''
                 (Some (event_type (heap w a), timestamp (heap w a), user_id (heap w a), url (heap w a)))) events @
          [Execute ''COMMIT'' None],
        vt_ops := vt_ops w + length events + 2\<rparr>)"
proof -
  let ?w1 = "w\<lparr>time_pos := Suc (time_pos w), vt_ops := Suc (vt_ops w)\<rparr>"
  let ?data = "map (\<lambda>a. (event_type (heap w a), timestamp (heap w a), user_id (heap w a), url (heap w a))) events"
  have h0: "vt_fail env (vt_ops w) = None" using assms by (metis le0 add_0_right)
  have hs: "\<forall>k < length ?data. vt_fail env (vt_ops ?w1 + k) = None"
  proof (intro allI impI)
    fix k assume "k < length ?data"
    then have "Suc k \<le> Suc (length events)" by simp
    with assms have "vt_fail env (vt_ops w + Suc k) = None" by blast
    then show "vt_fail env (vt_ops ?w1 + k) = None" by simp
  qed
  have hc: "vt_fail env (Suc (vt_ops w + length events)) = None"
    using assms by (metis add_Suc_right le_refl)
  show ?thesis
    using h0 hc
    by (simp add: load_data_to_vertica_def io_defs time_time_def cursor_def vt_op_def
        cursor_execute_def execute_inserts_ok [OF hs] comp_def)
qed


lemma load_data_to_vertica_trace:
  "\<exists>n \<le> Suc (length events).
     vt_stmts (snd (load_data_to_vertica env events w)) =
       vt_stmts w @ take n
         (map (\<lambda>a. Execute ''INSERT INTO public.events VALUES (%s, %s, %s, %s)''
                 (Some (event_type (heap w a), timestamp (heap w a), user_id (heap w a), url (heap w a)))) events @
          [Execute ''COMMIT'' None]) \<and>
     ((\<exists>t. fst (load_data_to_vertica env events w) = Return t) \<longrightarrow> n = Suc (length events))"
proof (cases "vt_fail env (vt_ops w)")
  case (Some e)
  then have "load_data_to_vertica env events w =
      (Raise e, w\<lparr>time_pos := Suc (time_pos w), vt_ops := Suc (vt_ops w)\<rparr>)"
    by (simp add: load_data_to_vertica_def io_defs time_time_def cursor_def vt_op_def)
  then show ?thesis by (intro exI [of _ 0]) simp
next
  case None
  let ?w1 = "w\<lparr>time_pos := Suc (time_pos w), vt_ops := Suc (vt_ops w)\<rparr>"
  let ?data = "map (\<lambda>a. (event_type (heap w a), timestamp (heap w a), user_id (heap w a), url (heap w a))) events"
  let ?ins = "map (\<lambda>d. Execute ''INSERT INTO public.events VALUES (%s, %s, %s, %s)'' (Some d)) ?data"
  have insmap: "?ins = map (\<lambda>a. Execute ''INSERT INTO public.events VALUES (%s, %s, %s, %s)''
                 (Some (event_type (heap w a), timestamp (heap w a), user_id (heap w a), url (heap w a)))) events"
    by (simp add: comp_def)
  obtain r w2 where ex: "execute_inserts env ?data ?w1 = (r, w2)"
    by (cases "execute_inserts env ?data ?w1")
  from execute_inserts_prefix [of ?data env ?w1] ex obtain n where n: "n \<le> length events"
    "w2 = ?w1\<lparr>vt_stmts := vt_stmts ?w1 @ take n ?ins, vt_ops := vt_ops ?w1 + n\<rparr>"
    "r = Return () \<longrightarrow> n = length events"
    by (auto simp: take_map)
  show ?thesis
  proof (cases r)
    case (Raise e)
    then have "load_data_to_vertica env events w = (Raise e, w2)"
      using None ex by (simp add: load_data_to_vertica_def io_defs time_time_def cursor_def vt_op_def)
    then show ?thesis using n(1,2) by (intro exI [of _ n]) (simp add: comp_def)
  next
    case (Return u)
    then have nl: "n = length events" using n(3) by simp
    have "vt_stmts (snd (load_data_to_vertica env events w)) = vt_stmts w2 @ [Execute ''COMMIT'' None]"
      using None ex Return
      by (simp add: load_data_to_vertica_def io_defs time_time_def cursor_def vt_op_def
          cursor_execute_def Let_def split: option.splits)
    then show ?thesis using n(2) nl by (intro exI [of _ "Suc (length events)"]) (simp add: comp_def)
  qed
qed

lemma load_data_to_vertica_empty:
  "load_data_to_vertica env [] w =
    (case vt_fail env (vt_ops w) of
       Some e \<Rightarrow> (Raise e, w\<lparr>time_pos := Suc (time_pos w), vt_ops := Suc (vt_ops w)\<rparr>)
     | None \<Rightarrow>
        (case vt_fail env (Suc (vt_ops w)) of
           Some e \<Rightarrow> (Raise e, w\<lparr>time_pos := Suc (time_pos w), vt_ops := Suc (Suc (vt_ops w)),
                                  vt_stmts := vt_stmts w @ [Execute ''COMMIT'' None]\<rparr>)
         | None \<Rightarrow> (Return (time_raw env (Suc (time_pos w)) - time_raw env (time_pos w)),
                     w\<lparr>time_pos := Suc (Suc (time_pos w)), vt_ops := Suc (Suc (vt_ops w)),
                       vt_stmts := vt_stmts w @ [Execute ''COMMIT'' None]\<rparr>)))"
  by (simp add: load_data_to_vertica_def io_defs time_time_def cursor_def vt_op_def
      cursor_execute_def Let_def split: option.splits)

lemma execute_inserts_fails:
  assumes "j < length ds" and "\<forall>k < j. vt_fail env (vt_ops w + k) = None"
    and "vt_fail env (vt_ops w + j) = Some e"
  shows "execute_inserts env ds w =
     (Raise e, w\<lparr>vt_stmts := vt_stmts w @ map (\<lambda>d. Execute ''INSERT INTO public.events VALUES (%s, %s, %s, %s)'' (Some d)) (take (Suc j) ds),
                  vt_ops := vt_ops w + Suc j\<rparr>)"
  using assms
proof (induction ds arbitrary: w j)
  case Nil
  then show ?case by simp
next
  case (Cons d ds)
  let ?w1 = "w\<lparr>vt_stmts := vt_stmts w @ [Execute ''INSERT INTO public.events VALUES (%s, %s, %s, %s)'' (Some d)], vt_ops := Suc (vt_ops w)\<rparr>"
  show ?case
  proof (cases j)
    case 0
    with Cons.prems(3) have "vt_fail env (vt_ops w) = Some e" by simp
    then show ?thesis using 0 by (simp add: io_defs cursor_execute_def vt_op_def)
  next
    case (Suc i)
    have h0: "vt_fail env (vt_ops w) = None" using Cons.prems(2) Suc by (metis add_0_right zero_less_Suc)
    have i: "i < length ds" using Cons.prems(1) Suc by simp
    have hs: "\<forall>k < i. vt_fail env (vt_ops ?w1 + k) = None"
    proof (intro allI impI)
      fix k assume "k < i"
      then have "Suc k < j" using Suc by simp
      with Cons.prems(2) have "vt_fail env (vt_ops w + Suc k) = None" by blast
      then show "vt_fail env (vt_ops ?w1 + k) = None" by simp
    qed
    have he: "vt_fail env (vt_ops ?w1 + i) = Some e" using Cons.prems(3) Suc by simp
    have st: "execute_inserts env (d # ds) w = execute_inserts env ds ?w1"
      using h0 by (simp add: io_defs cursor_execute_def vt_op_def)
    show ?thesis unfolding st Cons.IH [OF i hs he] using Suc by simp
  qed
qed

lemma load_data_to_vertica_fails:
  assumes "j \<le> Suc (length events)" and "\<forall>k < j. vt_fail env (vt_ops w + k) = None"
    and "vt_fail env (vt_ops w + j) = Some e"
  shows "fst (load_data_to_vertica env events w) = Raise e \<and>
     vt_stmts (snd (load_data_to_vertica env events w)) =
       vt_stmts w @ take j
         (map (\<lambda>a. Execute ''INSERT INTO public.events VALUES (%s, %s, %s, %s)''
                 (Some (event_type (heap w a), timestamp (heap w a), user_id (heap w a), url (heap w a)))) events @
          [Execute ''COMMIT'' None])"
proof -
  let ?w1 = "w\<lparr>time_pos := Suc (time_pos w), vt_ops := Suc (vt_ops w)\<rparr>"
  let ?data = "map (\<lambda>a. (event_type (heap w a), timestamp (heap w a), user_id (heap w a), url (heap w a))) events"
  consider "j = 0" | i where "j = Suc i" "i < length events" | "j = Suc (length events)"
    using assms(1) by (cases j) (auto simp: less_Suc_eq_le le_less)
  then show ?thesis
  proof cases
    case 1
    then have "vt_fail env (vt_ops w) = Some e" using assms(3) by simp
    then show ?thesis using 1
      by (simp add: load_data_to_vertica_def io_defs time_time_def cursor_def vt_op_def)
  next
    case 2
    have h0: "vt_fail env (vt_ops w) = None" using assms(2) 2(1) by (metis add_0_right zero_less_Suc)
    have i: "i < length ?data" using 2(2) by simp
    have hs: "\<forall>k < i. vt_fail env (vt_ops ?w1 + k) = None"
    proof (intro allI impI)
      fix k assume "k < i"
      then have "Suc k < j" using 2(1) by simp
      with assms(2) have "vt_fail env (vt_ops w + Suc k) = None" by blast
      then show "vt_fail env (vt_ops ?w1 + k) = None" by simp
    qed
    have he: "vt_fail env (vt_ops ?w1 + i) = Some e" using assms(3) 2(1) by simp
    note ex = execute_inserts_fails [OF i hs he]
    show ?thesis using h0 2
      by (simp add: load_data_to_vertica_def io_defs time_time_def cursor_def vt_op_def ex
          take_map comp_def)
  next
    case 3
    have h0: "vt_fail env (vt_ops w) = None" using assms(2) 3 by (metis add_0_right zero_less_Suc)
    have hs: "\<forall>k < length ?data. vt_fail env (vt_ops ?w1 + k) = None"
    proof (intro allI impI)
      fix k assume "k < length ?data"
      then have "Suc k < j" using 3 by simp
      with assms(2) have "vt_fail env (vt_ops w + Suc k) = None" by blast
      then show "vt_fail env (vt_ops ?w1 + k) = None" by simp
    qed
    have hc: "vt_fail env (Suc (vt_ops w + length events)) = Some e" using assms(3) 3 by simp
    show ?thesis using h0 hc 3
      by (simp add: load_data_to_vertica_def io_defs time_time_def cursor_def vt_op_def
          cursor_execute_def execute_inserts_ok [OF hs] comp_def)
  qed
qed

section \<open>Frames: helper lemmas\<close>

lemmas same_defs = same_generator_def same_clock_def same_vertica_def same_clickhouse_def

lemma same_trans:
  "same_generator a b \<Longrightarrow> same_generator b c \<Longrightarrow> same_generator a c"
  "same_clock a b \<Longrightarrow> same_clock b c \<Longrightarrow> same_clock a c"
  "same_vertica a b \<Longrightarrow> same_vertica b c \<Longrightarrow> same_vertica a c"
  "same_clickhouse a b \<Longrightarrow> same_clickhouse b c \<Longrightarrow> same_clickhouse a c"
  by (simp_all add: same_defs)

lemma same_refl:
  "same_generator a a" "same_clock a a" "same_vertica a a" "same_clickhouse a a"
  by (simp_all add: same_defs)

lemma logger_frame:
  "same_generator w (snd (logger l w))" "same_clock w (snd (logger l w))"
  "same_vertica w (snd (logger l w))" "same_clickhouse w (snd (logger l w))"
  by (simp_all add: logger_def same_defs)

lemma io_return_frame:
  "same_generator w (snd (io_return x w))" "same_clock w (snd (io_return x w))"
  "same_vertica w (snd (io_return x w))" "same_clickhouse w (snd (io_return x w))"
  by (simp_all add: io_return_def same_defs)

lemma io_raise_frame:
  "same_generator w (snd (io_raise e w))" "same_clock w (snd (io_raise e w))"
  "same_vertica w (snd (io_raise e w))" "same_clickhouse w (snd (io_raise e w))"
  by (simp_all add: io_raise_def same_defs)

lemma client_call_frame:
  "same_generator w (snd (client_call env c w))" "same_clock w (snd (client_call env c w))"
  "same_vertica w (snd (client_call env c w))"
  by (simp_all add: client_call_def same_defs Let_def split: option.splits sum.splits prod.splits)

lemma get_client_frame:
  "same_generator w (snd (get_client env w))" "same_clock w (snd (get_client env w))"
  "same_vertica w (snd (get_client env w))" "same_clickhouse w (snd (get_client env w))"
  by (simp_all add: get_client_def io_defs same_defs split: option.splits)

lemma vertica_connect_frame:
  "same_generator w (snd (vertica_connect env w))" "same_clock w (snd (vertica_connect env w))"
  "same_vertica w (snd (vertica_connect env w))" "same_clickhouse w (snd (vertica_connect env w))"
  by (simp_all add: vertica_connect_def io_defs same_defs split: option.splits)

lemma vt_op_frame:
  "same_generator w (snd (vt_op env w))" "same_clock w (snd (vt_op env w))"
  "same_clickhouse w (snd (vt_op env w))"
  by (simp_all add: vt_op_def same_defs Let_def split: option.splits)

lemma cursor_execute_frame:
  "same_generator w (snd (cursor_execute env sql p w))" "same_clock w (snd (cursor_execute env sql p w))"
  "same_clickhouse w (snd (cursor_execute env sql p w))"
  by (simp_all add: cursor_execute_def vt_op_def same_defs Let_def split: option.splits)

lemma time_time_frame:
  "same_generator w (snd (io_lift (time_time env) w))" "same_vertica w (snd (io_lift (time_time env) w))"
  "same_clickhouse w (snd (io_lift (time_time env) w))"
  by (simp_all add: io_lift_def time_time_def same_defs)

lemma generate_events_frame:
  "same_clock w (snd (io_lift (generate_events env n) w))"
  "same_vertica w (snd (io_lift (generate_events env n) w))"
  "same_clickhouse w (snd (io_lift (generate_events env n) w))"
proof -
  obtain rs w' where g: "generate_events_loop env (nat n) w = (rs, w')"
    by (cases "generate_events_loop env (nat n) w")
  note fr = generate_events_loop_frame [OF g]
  show "same_clock w (snd (io_lift (generate_events env n) w))"
    "same_vertica w (snd (io_lift (generate_events env n) w))"
    "same_clickhouse w (snd (io_lift (generate_events env n) w))"
    using g fr by (simp_all add: io_lift_def generate_events_def same_defs)
qed

lemmas prim_frames = logger_frame io_return_frame io_raise_frame client_call_frame get_client_frame
  vertica_connect_frame vt_op_frame cursor_execute_frame time_time_frame generate_events_frame

lemma clickhouse_only_trans:
  "same_generator a b \<and> same_clock a b \<and> same_vertica a b \<Longrightarrow>
   same_generator b c \<and> same_clock b c \<and> same_vertica b c \<Longrightarrow>
   same_generator a c \<and> same_clock a c \<and> same_vertica a c"
  by (simp add: same_defs)

lemma vertica_only_trans:
  "same_generator a b \<and> same_clock a b \<and> same_clickhouse a b \<Longrightarrow>
   same_generator b c \<and> same_clock b c \<and> same_clickhouse b c \<Longrightarrow>
   same_generator a c \<and> same_clock a c \<and> same_clickhouse a c"
  by (simp add: same_defs)

lemmas ch_bind =
  io_bind_rel [where R = "\<lambda>a b. same_generator a b \<and> same_clock a b \<and> same_vertica a b",
    OF clickhouse_only_trans]
  try_except_rel [where R = "\<lambda>a b. same_generator a b \<and> same_clock a b \<and> same_vertica a b",
    OF clickhouse_only_trans]

lemmas vt_bind =
  io_bind_rel [where R = "\<lambda>a b. same_generator a b \<and> same_clock a b \<and> same_clickhouse a b",
    OF vertica_only_trans]
  try_except_rel [where R = "\<lambda>a b. same_generator a b \<and> same_clock a b \<and> same_clickhouse a b",
    OF vertica_only_trans]

lemma init_clickhouse_frame:
  "same_generator w (snd (init_clickhouse env settings w)) \<and>
   same_clock w (snd (init_clickhouse env settings w)) \<and>
   same_vertica w (snd (init_clickhouse env settings w))"
  unfolding init_clickhouse_def
  by (intro ch_bind)
     (simp_all add: prim_frames)

lemma ClickhouseLoader_init_frame:
  "same_generator w (snd (ClickhouseLoader_init env settings w)) \<and>
   same_clock w (snd (ClickhouseLoader_init env settings w)) \<and>
   same_vertica w (snd (ClickhouseLoader_init env settings w))"
  unfolding ClickhouseLoader_init_def
  by (intro ch_bind)
     (simp_all add: prim_frames init_clickhouse_frame)

lemma connect_to_vertica_frame:
  "same_generator w (snd (connect_to_vertica env self w)) \<and>
   same_clock w (snd (connect_to_vertica env self w)) \<and>
   same_vertica w (snd (connect_to_vertica env self w)) \<and>
   same_clickhouse w (snd (connect_to_vertica env self w))"
  by (simp add: connect_to_vertica_def vertica_connect_def io_defs same_defs Let_def
      split: option.splits exn.splits)

lemma DatabaseManager_init_frame:
  "same_generator w (snd (DatabaseManager_init env cs vs w)) \<and>
   same_clock w (snd (DatabaseManager_init env cs vs w)) \<and>
   same_vertica w (snd (DatabaseManager_init env cs vs w))"
  unfolding DatabaseManager_init_def Let_def
  by (intro ch_bind)
     (simp_all add: prim_frames ClickhouseLoader_init_frame connect_to_vertica_frame)

lemma create_vertica_table_frame:
  "same_generator w (snd (create_vertica_table env settings w)) \<and>
   same_clock w (snd (create_vertica_table env settings w)) \<and>
   same_clickhouse w (snd (create_vertica_table env settings w))"
  unfolding create_vertica_table_def cursor_def
  by (intro vt_bind)
     (simp_all add: prim_frames)

lemma execute_inserts_frame:
  "same_generator w (snd (execute_inserts env ds w)) \<and>
   same_clock w (snd (execute_inserts env ds w)) \<and>
   same_clickhouse w (snd (execute_inserts env ds w))"
proof (induction ds arbitrary: w)
  case Nil
  show ?case by (simp add: prim_frames)
next
  case (Cons d ds)
  show ?case
    unfolding execute_inserts.simps
    by (intro vt_bind) (simp_all add: prim_frames Cons.IH)
qed

lemma load_batch_frame:
  "same_generator w (snd (load_batch env settings event_batch w)) \<and>
   same_clock w (snd (load_batch env settings event_batch w)) \<and>
   same_vertica w (snd (load_batch env settings event_batch w))"
proof (cases "event_batch = []")
  case True
  then show ?thesis by (simp add: load_batch_def same_refl)
next
  case False
  then show ?thesis
    unfolding load_batch_def Let_def
    by (simp only: if_False) ((intro ch_bind), simp_all add: prim_frames)
qed

lemma gen_vt_trans:
  "same_generator a b \<and> same_vertica a b \<Longrightarrow> same_generator b c \<and> same_vertica b c \<Longrightarrow>
   same_generator a c \<and> same_vertica a c"
  by (simp add: same_defs)

lemma gen_ch_trans:
  "same_generator a b \<and> same_clickhouse a b \<Longrightarrow> same_generator b c \<and> same_clickhouse b c \<Longrightarrow>
   same_generator a c \<and> same_clickhouse a c"
  by (simp add: same_defs)

lemmas gen_vt_bind =
  io_bind_rel [where R = "\<lambda>a b. same_generator a b \<and> same_vertica a b", OF gen_vt_trans]

lemmas gen_ch_bind =
  io_bind_rel [where R = "\<lambda>a b. same_generator a b \<and> same_clickhouse a b", OF gen_ch_trans]

lemma load_data_to_clickhouse_frame:
  "same_generator w (snd (load_data_to_clickhouse env events loader w)) \<and>
   same_vertica w (snd (load_data_to_clickhouse env events loader w))"
  unfolding load_data_to_clickhouse_def
  by (intro gen_vt_bind) (simp_all add: prim_frames load_batch_frame)

lemma read_data_frame:
  "same_generator w (snd (read_data env settings w)) \<and>
   same_vertica w (snd (read_data env settings w))"
  unfolding read_data_def
  by (intro gen_vt_bind) (simp_all add: prim_frames)

lemma read_data_from_vertica_frame:
  "same_generator w (snd (read_data_from_vertica env settings w)) \<and>
   same_clickhouse w (snd (read_data_from_vertica env settings w))"
  unfolding read_data_from_vertica_def cursor_def cursor_fetchall_def
  by (intro gen_ch_bind) (simp_all add: prim_frames)

lemma load_data_to_vertica_frame:
  "same_generator w (snd (load_data_to_vertica env events w)) \<and>
   same_clickhouse w (snd (load_data_to_vertica env events w))"
  unfolding load_data_to_vertica_def cursor_def Let_def
  by (intro gen_ch_bind) (simp_all add: prim_frames execute_inserts_frame)

section \<open>Table names: helper lemmas\<close>

lemma split_at_dot:
  assumes "d @ ''.'' @ t = u @ ''.'' @ v" and "CHR ''.'' \<notin> set u" and "CHR ''.'' \<notin> set v"
  shows "d = u \<and> t = v"
  using assms
proof (induction u arbitrary: d)
  case Nil
  then show ?case by (cases d) auto
next
  case (Cons c u)
  then show ?case by (cases d) auto
qed

lemma qualified_name_default:
  "(qualified_name d t = ''example.events'') = (d = ''example'' \<and> t = ''events'')"
proof
  assume "qualified_name d t = ''example.events''"
  then have "d @ ''.'' @ t = ''example'' @ ''.'' @ ''events''" by (simp add: qualified_name_def)
  then show "d = ''example'' \<and> t = ''events''" by (rule split_at_dot) simp_all
next
  assume "d = ''example'' \<and> t = ''events''"
  then show "qualified_name d t = ''example.events''" by (simp add: qualified_name_def)
qed

section \<open>ClickHouse initialisation: helper lemmas\<close>

lemma init_clickhouse_returns: "fst (init_clickhouse env settings w) = Return ()"
  by (simp add: init_clickhouse_def io_bind_def try_except_def logger_def
      split: prod.splits outcome.splits)

lemma init_clickhouse_ok:
  assumes "\<forall>k < 4. ch_fail env (length (ch_calls w) + k) = None"
  shows "ch_calls (snd (init_clickhouse env settings w)) =
      ch_calls w @
      [Command (CreateDatabaseIfNotExists (ch_database settings)),
       Command (Use (ch_database settings)),
       Command (DropTableIfExists (qualified_name (ch_database settings) (ch_table settings))),
       Command (CreateTableIfNotExists (qualified_name (ch_database settings) (ch_table settings))
                  events_columns ''Engine=MergeTree() ORDER BY timestamp'')]"
    and "ch_state (snd (init_clickhouse env settings w)) =
      (ch_state w)\<lparr>databases := insert (ch_database settings) (databases (ch_state w)),
                    current_db := ch_database settings,
                    tables := (tables (ch_state w))
                      (qualified_name (ch_database settings) (ch_table settings) \<mapsto>
                         \<lparr>columns = events_columns, engine = ''Engine=MergeTree() ORDER BY timestamp'',
                          table_rows = []\<rparr>)\<rparr>"
    and "log_lines (snd (init_clickhouse env settings w)) =
      log_lines w @
      [INFO ''Initializing ClickHouse'',
       INFO (''DROP db result: '' @ ch_reply env (length (ch_calls w) + 2)),
       INFO (''Creating table: '' @ ch_table settings @ '' in database: '' @ ch_database settings),
       INFO (''Table '' @ [CHR 0x27] @ ch_table settings @ [CHR 0x27] @
             '' created successfully in database '' @ [CHR 0x27] @
             ch_database settings @ [CHR 0x27] @ ''.'')]"
proof -
  have f: "ch_fail env (length (ch_calls w)) = None" "ch_fail env (Suc (length (ch_calls w))) = None"
    "ch_fail env (Suc (Suc (length (ch_calls w)))) = None"
    "ch_fail env (Suc (Suc (Suc (length (ch_calls w))))) = None"
    using assms [rule_format, of 0] assms [rule_format, of 1] assms [rule_format, of 2]
      assms [rule_format, of 3] by (simp_all add: numeral_3_eq_3)
  show "ch_calls (snd (init_clickhouse env settings w)) =
      ch_calls w @
      [Command (CreateDatabaseIfNotExists (ch_database settings)),
       Command (Use (ch_database settings)),
       Command (DropTableIfExists (qualified_name (ch_database settings) (ch_table settings))),
       Command (CreateTableIfNotExists (qualified_name (ch_database settings) (ch_table settings))
                  events_columns ''Engine=MergeTree() ORDER BY timestamp'')]"
    using f by (simp add: init_clickhouse_def io_defs client_call_def Let_def)
  show "ch_state (snd (init_clickhouse env settings w)) =
      (ch_state w)\<lparr>databases := insert (ch_database settings) (databases (ch_state w)),
                    current_db := ch_database settings,
                    tables := (tables (ch_state w))
                      (qualified_name (ch_database settings) (ch_table settings) \<mapsto>
                         \<lparr>columns = events_columns, engine = ''Engine=MergeTree() ORDER BY timestamp'',
                          table_rows = []\<rparr>)\<rparr>"
    using f by (simp add: init_clickhouse_def io_defs client_call_def Let_def)
  show "log_lines (snd (init_clickhouse env settings w)) =
      log_lines w @
      [INFO ''Initializing ClickHouse'',
       INFO (''DROP db result: '' @ ch_reply env (length (ch_calls w) + 2)),
       INFO (''Creating table: '' @ ch_table settings @ '' in database: '' @ ch_database settings),
       INFO (''Table '' @ [CHR 0x27] @ ch_table settings @ [CHR 0x27] @
             '' created successfully in database '' @ [CHR 0x27] @
             ch_database settings @ [CHR 0x27] @ ''.'')]"
    using f by (simp add: init_clickhouse_def io_defs client_call_def Let_def)
qed


lemma init_clickhouse_fails:
  assumes "n < 4" and "\<forall>k < n. ch_fail env (length (ch_calls w) + k) = None"
    and "ch_fail env (length (ch_calls w) + n) = Some e"
  shows "ch_calls (snd (init_clickhouse env settings w)) =
      ch_calls w @ take (Suc n)
      [Command (CreateDatabaseIfNotExists (ch_database settings)),
       Command (Use (ch_database settings)),
       Command (DropTableIfExists (qualified_name (ch_database settings) (ch_table settings))),
       Command (CreateTableIfNotExists (qualified_name (ch_database settings) (ch_table settings))
                  events_columns ''Engine=MergeTree() ORDER BY timestamp'')] \<and>
    last (log_lines (snd (init_clickhouse env settings w))) =
      EXCEPTION ''An error occurred during ClickHouse initialization'' e"
proof -
  from assms(1) consider "n = 0" | "n = 1" | "n = 2" | "n = 3" by linarith
  then show ?thesis
  proof cases
    case 1
    then have "ch_fail env (length (ch_calls w)) = Some e" using assms(3) by simp
    then show ?thesis using 1
      by (simp add: init_clickhouse_def io_defs client_call_def Let_def)
  next
    case 2
    then have "ch_fail env (length (ch_calls w)) = None" "ch_fail env (Suc (length (ch_calls w))) = Some e"
      using assms(2) [rule_format, of 0] assms(3) by simp_all
    then show ?thesis using 2
      by (simp add: init_clickhouse_def io_defs client_call_def Let_def)
  next
    case 3
    then have "ch_fail env (length (ch_calls w)) = None" "ch_fail env (Suc (length (ch_calls w))) = None"
      "ch_fail env (Suc (Suc (length (ch_calls w)))) = Some e"
      using assms(2) [rule_format, of 0] assms(2) [rule_format, of 1] assms(3) by simp_all
    then show ?thesis using 3
      by (simp add: init_clickhouse_def io_defs client_call_def Let_def)
  next
    case 4
    then have "ch_fail env (length (ch_calls w)) = None" "ch_fail env (Suc (length (ch_calls w))) = None"
      "ch_fail env (Suc (Suc (length (ch_calls w)))) = None"
      "ch_fail env (Suc (Suc (Suc (length (ch_calls w))))) = Some e"
      using assms(2) [rule_format, of 0] assms(2) [rule_format, of 1] assms(2) [rule_format, of 2]
        assms(3) by (simp_all add: numeral_3_eq_3)
    then show ?thesis using 4
      by (simp add: init_clickhouse_def io_defs client_call_def Let_def numeral_3_eq_3)
  qed
qed

section \<open>Sample runs and calls: helper lemmas\<close>

lemma w_events_eq:
  "w_events =
     w0\<lparr>rand_pos := 8, now_pos := 2, uuid_pos := 1,
        heap := (heap w0)
          (0 := \<lparr>event_type = ''click'', timestamp = 999913600000000,
                 user_id = Some (UUID 100), url = Some ''http://example.com''\<rparr>,
           1 := \<lparr>event_type = ''view'', timestamp = 999568000000001,
                 user_id = None, url = Some ''http://test.com''\<rparr>),
        heap_next := 2\<rparr>"
  by (simp add: w_events_def generate_events_env0)

lemma w_events_fields:
  "heap w_events 0 = \<lparr>event_type = ''click'', timestamp = 999913600000000,
                 user_id = Some (UUID 100), url = Some ''http://example.com''\<rparr>"
  "heap w_events (Suc 0) = \<lparr>event_type = ''view'', timestamp = 999568000000001,
                 user_id = None, url = Some ''http://test.com''\<rparr>"
  "vt_stmts w_events = []" "vt_ops w_events = 0" "ch_calls w_events = []"
  "time_pos w_events = 0" "log_lines w_events = []"
  "ch_state w_events = \<lparr>databases = {''default''}, current_db = ''default'', tables = Map.empty\<rparr>"
  by (simp_all add: w_events_eq w0_def)

lemma load_batch_calls:
  "event_batch \<noteq> [] \<Longrightarrow>
   fst (load_batch env settings event_batch w) = Return () \<and>
   ch_calls (snd (load_batch env settings event_batch w)) =
     ch_calls w @ [Insert ''example.events''
                     (map (\<lambda>event. model_dump_values (heap w event)) event_batch)
                     model_fields_keys]"
  by (simp add: load_batch_def io_defs client_call_def Let_def
      split: option.splits sum.splits prod.splits)

lemma read_data_calls:
  "ch_calls (snd (read_data env settings w)) =
     ch_calls w @ [Query (SelectAllFrom (qualified_name (ch_database settings) (ch_table settings)))]"
  by (simp add: read_data_def io_defs client_call_def time_time_def Let_def
      split: option.splits sum.splits prod.splits)

lemma init_statements_text:
  "map ch_sql
     [CreateDatabaseIfNotExists d, Use d, DropTableIfExists (qualified_name d t),
      CreateTableIfNotExists (qualified_name d t) events_columns
        ''Engine=MergeTree() ORDER BY timestamp''] =
   [''CREATE DATABASE IF NOT EXISTS '' @ d,
    ''USE '' @ d,
    ''DROP TABLE IF EXISTS '' @ d @ ''.'' @ t,
    ''CREATE TABLE IF NOT EXISTS '' @ d @ ''.'' @ t @
      '' (event_type String, timestamp DateTime64, user_id UUID NULL, url String NULL) Engine=MergeTree() ORDER BY timestamp'']"
  by (simp add: qualified_name_def events_columns_def)

section \<open>Clock readings: helper lemmas\<close>

lemma io_bind_Return:
  assumes "io_bind m f w = (Return y, w')"
  obtains x w1 where "m w = (Return x, w1)" and "f x w1 = (Return y, w')"
  using assms by (auto simp: io_bind_def split: prod.splits outcome.splits)

lemma time_time_Return:
  assumes "io_lift (time_time env) w = (Return t, w')"
  shows "t = time_raw env (time_pos w)" and "w' = w\<lparr>time_pos := Suc (time_pos w)\<rparr>"
  using assms by (auto simp: io_lift_def time_time_def)

lemma clock_tail:
  assumes "io_bind (io_lift (time_time env)) (\<lambda>t. io_return (t - start)) w = (Return d, w')"
  shows "d = time_raw env (time_pos w) - start \<and> time_pos w' = Suc (time_pos w)"
  using assms by (auto simp: io_defs time_time_def)

lemma clock_step:
  assumes "io_bind m f w = (Return d, w')"
    and "same_clock w (snd (m w))"
    and "\<And>x u. f x u = (Return d, w') \<Longrightarrow> d = time_raw env (time_pos u) - start \<and> time_pos w' = Suc (time_pos u)"
  shows "d = time_raw env (time_pos w) - start \<and> time_pos w' = Suc (time_pos w)"
proof -
  from assms(1) obtain x w1 where m: "m w = (Return x, w1)" and f: "f x w1 = (Return d, w')"
    by (rule io_bind_Return)
  from assms(2) m have "time_pos w1 = time_pos w" by (simp add: same_clock_def)
  with assms(3) [OF f] show ?thesis by simp
qed

lemma clock_head:
  assumes "io_bind (io_lift (time_time env)) f w = (Return d, w')"
    and "\<And>start u. f start u = (Return d, w') \<Longrightarrow>
           d = time_raw env (time_pos u) - start \<and> time_pos w' = Suc (time_pos u)"
  shows "d = time_raw env (Suc (time_pos w)) - time_raw env (time_pos w) \<and>
         time_pos w' = Suc (Suc (time_pos w))"
proof -
  from assms(1) obtain x w1 where m: "io_lift (time_time env) w = (Return x, w1)"
    and f: "f x w1 = (Return d, w')"
    by (rule io_bind_Return)
  from time_time_Return [OF m] assms(2) [OF f] show ?thesis by simp
qed

lemma load_data_to_clickhouse_time:
  assumes "load_data_to_clickhouse env events loader w = (Return d, w')"
  shows "d = time_raw env (Suc (time_pos w)) - time_raw env (time_pos w) \<and>
         time_pos w' = Suc (Suc (time_pos w))"
  using assms unfolding load_data_to_clickhouse_def
  by (elim clock_head clock_step clock_tail) (simp add: load_batch_frame)

lemma read_data_time:
  assumes "read_data env settings w = (Return d, w')"
  shows "d = time_raw env (Suc (time_pos w)) - time_raw env (time_pos w) \<and>
         time_pos w' = Suc (Suc (time_pos w))"
  using assms unfolding read_data_def
  by (elim clock_head clock_step clock_tail) (simp add: prim_frames)

lemma read_data_from_vertica_time:
  assumes "read_data_from_vertica env settings w = (Return d, w')"
  shows "d = time_raw env (Suc (time_pos w)) - time_raw env (time_pos w) \<and>
         time_pos w' = Suc (Suc (time_pos w))"
  using assms unfolding read_data_from_vertica_def cursor_def cursor_fetchall_def
  by (elim clock_head clock_step clock_tail) (simp_all add: prim_frames)

lemma load_data_to_vertica_time:
  assumes "load_data_to_vertica env events w = (Return d, w')"
  shows "d = time_raw env (Suc (time_pos w)) - time_raw env (time_pos w) \<and>
         time_pos w' = Suc (Suc (time_pos w))"
  using assms unfolding load_data_to_vertica_def cursor_def Let_def
  by (elim clock_head clock_step clock_tail) (simp_all add: prim_frames execute_inserts_frame)

section \<open>The orchestrator: helper lemmas\<close>

lemma logger_Return:
  assumes "logger l w = (r, w')"
  shows "time_pos w' = time_pos w"
  using assms by (auto simp: logger_def)

lemma main_Return_Some:
  assumes "main env settings w = (Return (Some m), w')"
  shows "m = [''clickhouse_write_time'' \<mapsto> time_raw env (time_pos w + 1) - time_raw env (time_pos w),
              ''vertica_write_time'' \<mapsto> time_raw env (time_pos w + 3) - time_raw env (time_pos w + 2),
              ''clickhouse_read_time'' \<mapsto> time_raw env (time_pos w + 5) - time_raw env (time_pos w + 4),
              ''vertica_read_time'' \<mapsto> time_raw env (time_pos w + 7) - time_raw env (time_pos w + 6)]"
proof -
  let ?body = "io_bind (logger (INFO ''Starting data generation and loading process'')) (\<lambda>_.
        io_bind (DatabaseManager_init env (clickhouse settings) (vertica settings)) (\<lambda>db_manager.
        io_bind (init_clickhouse env (clickhouse_loader db_manager)) (\<lambda>_.
        io_bind (create_vertica_table env settings) (\<lambda>_.
        io_bind (io_lift (generate_events env 1000)) (\<lambda>events.
        io_bind (load_data_to_clickhouse env events (clickhouse_loader db_manager))
          (\<lambda>clickhouse_write_time.
        io_bind (load_data_to_vertica env events) (\<lambda>vertica_write_time.
        io_bind (read_data env (clickhouse_loader db_manager)) (\<lambda>clickhouse_read_time.
        io_bind (read_data_from_vertica env settings) (\<lambda>vertica_read_time.
        io_bind (logger (INFO_float ''ClickHouse write time: '' clickhouse_write_time
                   '' seconds'')) (\<lambda>_.
        io_bind (logger (INFO_float ''Vertica write time: '' vertica_write_time
                   ''  seconds'')) (\<lambda>_.
        io_bind (logger (INFO_float ''ClickHouse read time: '' clickhouse_read_time
                   '' seconds'')) (\<lambda>_.
        io_bind (logger (INFO_float ''Vertica read time: '' vertica_read_time
                   '' seconds'')) (\<lambda>_.
        io_return (Some
          [''clickhouse_write_time'' \<mapsto> clickhouse_write_time,
           ''vertica_write_time'' \<mapsto> vertica_write_time,
           ''clickhouse_read_time'' \<mapsto> clickhouse_read_time,
           ''vertica_read_time'' \<mapsto> vertica_read_time]))))))))))))))"
  from assms have b: "?body w = (Return (Some m), w')"
    by (auto simp: main_def try_except_def io_bind_def [of "logger (EXCEPTION _ _)"] logger_def io_return_def
        split: prod.splits outcome.splits)
  from b obtain u1 w1 db w2 u3 w3 u4 w4 events w5 t1 w6 t2 w7 t3 w8 t4 w9
    where s1: "logger (INFO ''Starting data generation and loading process'') w = (Return u1, w1)"
      and s2: "DatabaseManager_init env (clickhouse settings) (vertica settings) w1 = (Return db, w2)"
      and s3: "init_clickhouse env (clickhouse_loader db) w2 = (Return u3, w3)"
      and s4: "create_vertica_table env settings w3 = (Return u4, w4)"
      and s5: "io_lift (generate_events env 1000) w4 = (Return events, w5)"
      and s6: "load_data_to_clickhouse env events (clickhouse_loader db) w5 = (Return t1, w6)"
      and s7: "load_data_to_vertica env events w6 = (Return t2, w7)"
      and s8: "read_data env (clickhouse_loader db) w7 = (Return t3, w8)"
      and s9: "read_data_from_vertica env settings w8 = (Return t4, w9)"
      and m: "m = [''clickhouse_write_time'' \<mapsto> t1, ''vertica_write_time'' \<mapsto> t2,
                   ''clickhouse_read_time'' \<mapsto> t3, ''vertica_read_time'' \<mapsto> t4]"
    apply (elim io_bind_Return)
    apply (auto simp: io_return_def)
    done
  have p1: "time_pos w1 = time_pos w" using s1 by (rule logger_Return)
  have p2: "time_pos w2 = time_pos w1"
    using DatabaseManager_init_frame [of w1 env "clickhouse settings" "vertica settings"] s2
    by (simp add: same_clock_def)
  have p3: "time_pos w3 = time_pos w2"
    using init_clickhouse_frame [of w2 env "clickhouse_loader db"] s3 by (simp add: same_clock_def)
  have p4: "time_pos w4 = time_pos w3"
    using create_vertica_table_frame [of w3 env settings] s4 by (simp add: same_clock_def)
  have p5: "time_pos w5 = time_pos w4"
    using generate_events_frame(1) [of w4 env 1000] s5 by (simp add: same_clock_def)
  note c6 = load_data_to_clickhouse_time [OF s6]
  note c7 = load_data_to_vertica_time [OF s7]
  note c8 = read_data_time [OF s8]
  note c9 = read_data_from_vertica_time [OF s9]
  have p: "time_pos w5 = time_pos w" using p1 p2 p3 p4 p5 by simp
  show ?thesis using m c6 c7 c8 c9 p by (simp add: eval_nat_numeral)
qed

lemma ClickhouseLoader_init_ok:
  assumes "ch_connect_fail env = None"
  shows "fst (ClickhouseLoader_init env cs w) = Return cs"
proof -
  obtain r w1 where i: "init_clickhouse env cs w = (r, w1)" by (cases "init_clickhouse env cs w")
  with init_clickhouse_returns [of env cs w] have "r = Return ()" by simp
  with i assms show ?thesis
    by (simp add: ClickhouseLoader_init_def get_client_def io_defs)
qed

lemma connect_to_vertica_ok:
  assumes "vt_connect_fail env = None"
  shows "fst (connect_to_vertica env self w) = Return ()"
  using assms by (simp add: connect_to_vertica_def vertica_connect_def io_defs Let_def)

lemma DatabaseManager_init_ok:
  assumes "ch_connect_fail env = None" and "vt_connect_fail env = None"
  shows "fst (DatabaseManager_init env cs vs w) =
     Return \<lparr>vertica_settings = vs, clickhouse_loader = cs\<rparr>"
proof -
  obtain r w1 where l: "ClickhouseLoader_init env cs w = (r, w1)"
    by (cases "ClickhouseLoader_init env cs w")
  with ClickhouseLoader_init_ok [OF assms(1), of cs w] have r: "r = Return cs" by simp
  obtain r2 w2 where c: "connect_to_vertica env \<lparr>vertica_settings = vs, clickhouse_loader = cs\<rparr> w1 = (r2, w2)"
    by (cases "connect_to_vertica env \<lparr>vertica_settings = vs, clickhouse_loader = cs\<rparr> w1")
  with connect_to_vertica_ok [OF assms(2), of "\<lparr>vertica_settings = vs, clickhouse_loader = cs\<rparr>" w1]
  have r2: "r2 = Return ()" by simp
  show ?thesis using l r c r2 by (simp add: DatabaseManager_init_def io_defs Let_def)
qed

lemma create_vertica_table_returns: "fst (create_vertica_table env settings w) = Return ()"
  by (simp add: create_vertica_table_def io_bind_def [of "logger (INFO ''Creating Vertica table'')"]
      try_except_def logger_def split: prod.splits outcome.splits)

lemma load_batch_returns: "fst (load_batch env settings event_batch w) = Return ()"
  by (simp add: load_batch_def io_defs Let_def split: prod.splits outcome.splits)

lemma load_data_to_clickhouse_returns:
  "\<exists>t. fst (load_data_to_clickhouse env events loader w) = Return t"
proof -
  let ?w1 = "w\<lparr>time_pos := Suc (time_pos w)\<rparr>"
  obtain r w2 where l: "load_batch env loader events ?w1 = (r, w2)"
    by (cases "load_batch env loader events ?w1")
  with load_batch_returns [of env loader events ?w1] have "r = Return ()" by simp
  with l show ?thesis
    by (simp add: load_data_to_clickhouse_def io_defs time_time_def)
qed

lemma load_batch_keeps_tables:
  assumes "tables (ch_state w) q \<noteq> None"
  shows "tables (ch_state (snd (load_batch env settings event_batch w))) q \<noteq> None"
  using assms
  by (simp add: load_batch_def io_defs client_call_def Let_def
      split: option.splits sum.splits prod.splits)

lemma load_data_to_clickhouse_keeps_tables:
  assumes "tables (ch_state w) q \<noteq> None"
  shows "tables (ch_state (snd (load_data_to_clickhouse env events loader w))) q \<noteq> None"
proof -
  let ?w1 = "w\<lparr>time_pos := Suc (time_pos w)\<rparr>"
  have "tables (ch_state ?w1) q \<noteq> None" using assms by simp
  from load_batch_keeps_tables [OF this, of env loader events]
  show ?thesis
    by (cases "load_batch env loader events ?w1")
       (auto simp: load_data_to_clickhouse_def io_defs time_time_def split: outcome.splits)
qed

lemma read_data_ok:
  assumes "ch_fail env (length (ch_calls w)) = None"
    and "tables (ch_state w) (qualified_name (ch_database settings) (ch_table settings)) \<noteq> None"
  shows "\<exists>t. fst (read_data env settings w) = Return t"
  using assms
  by (auto simp: read_data_def io_defs client_call_def time_time_def Let_def)

lemma read_data_from_vertica_ok:
  assumes "\<forall>k < 3. vt_fail env (vt_ops w + k) = None"
  shows "\<exists>t. fst (read_data_from_vertica env settings w) = Return t"
proof -
  have "vt_fail env (vt_ops w) = None" "vt_fail env (Suc (vt_ops w)) = None"
    "vt_fail env (Suc (Suc (vt_ops w))) = None"
    using assms [rule_format, of 0] assms [rule_format, of 1] assms [rule_format, of 2] by simp_all
  then show ?thesis
    by (simp add: read_data_from_vertica_def io_defs time_time_def cursor_def cursor_fetchall_def
        cursor_execute_def vt_op_def Let_def)
qed

lemma create_vertica_table_stmts:
  "vt_stmts (snd (create_vertica_table env settings w)) =
     vt_stmts w @
     (if vt_fail env (vt_ops w) = None
      then [Execute (''CREATE TABLE IF NOT EXISTS '' @ vertica_schema (vertica settings) @ ''.'' @
                     vt_table (vertica settings) @
                     '' (event_type VARCHAR(255), timestamp TIMESTAMP, user_id UUID NULL, url VARCHAR(255) NULL)'')
              None]
      else [])"
  by (simp add: create_vertica_table_def io_defs cursor_def cursor_execute_def vt_op_def Let_def
      split: option.splits)

lemma read_data_from_vertica_stmts:
  "vt_stmts (snd (read_data_from_vertica env settings w)) =
     vt_stmts w @
     (if vt_fail env (vt_ops w) = None
      then [Execute (''SELECT * FROM '' @ vertica_schema (vertica settings) @ ''.'' @
                     vt_table (vertica settings)) None]
      else [])"
  by (simp add: read_data_from_vertica_def io_defs time_time_def cursor_def cursor_fetchall_def
      cursor_execute_def vt_op_def Let_def split: option.splits)

lemma main_ok:
  assumes "ch_connect_fail env = None" and "vt_connect_fail env = None"
    and "ch_fail env = (\<lambda>k. None)" and "vt_fail env = (\<lambda>k. None)"
  shows "\<exists>m rows. fst (main env settings w) = Return (Some m) \<and> length rows = 1000 \<and>
     vt_stmts (snd (main env settings w)) =
       vt_stmts w @
       [Execute (''CREATE TABLE IF NOT EXISTS '' @ vertica_schema (vertica settings) @ ''.'' @
                 vt_table (vertica settings) @
                 '' (event_type VARCHAR(255), timestamp TIMESTAMP, user_id UUID NULL, url VARCHAR(255) NULL)'')
          None] @
       map (\<lambda>d. Execute ''INSERT INTO public.events VALUES (%s, %s, %s, %s)'' (Some d)) rows @
       [Execute ''COMMIT'' None,
        Execute (''SELECT * FROM '' @ vertica_schema (vertica settings) @ ''.'' @
                 vt_table (vertica settings)) None]"
proof -
  let ?cs = "clickhouse settings"
  let ?db = "\<lparr>vertica_settings = vertica settings, clickhouse_loader = ?cs\<rparr>"
  let ?q = "qualified_name (ch_database ?cs) (ch_table ?cs)"
  let ?create = "Execute (''CREATE TABLE IF NOT EXISTS '' @ vertica_schema (vertica settings) @ ''.'' @
                 vt_table (vertica settings) @
                 '' (event_type VARCHAR(255), timestamp TIMESTAMP, user_id UUID NULL, url VARCHAR(255) NULL)'')
          None"
  let ?select = "Execute (''SELECT * FROM '' @ vertica_schema (vertica settings) @ ''.'' @
                 vt_table (vertica settings)) None"
  have vf: "\<And>k. vt_fail env k = None" using assms(4) by simp
  obtain w1 where s1: "logger (INFO ''Starting data generation and loading process'') w = (Return (), w1)"
    by (simp add: logger_def)
  have v1: "vt_stmts w1 = vt_stmts w" using s1 by (auto simp: logger_def)
  obtain w2 where s2: "DatabaseManager_init env ?cs (vertica settings) w1 = (Return ?db, w2)"
    using DatabaseManager_init_ok [OF assms(1,2), of ?cs "vertica settings" w1]
    by (cases "DatabaseManager_init env ?cs (vertica settings) w1") simp
  have v2: "vt_stmts w2 = vt_stmts w1"
    using DatabaseManager_init_frame [of w1 env ?cs "vertica settings"] s2 by (simp add: same_vertica_def)
  obtain w3 where s3: "init_clickhouse env ?cs w2 = (Return (), w3)"
    using init_clickhouse_returns [of env ?cs w2] by (cases "init_clickhouse env ?cs w2") simp
  have v3: "vt_stmts w3 = vt_stmts w2"
    using init_clickhouse_frame [of w2 env ?cs] s3 by (simp add: same_vertica_def)
  have f4: "\<forall>k < 4. ch_fail env (length (ch_calls w2) + k) = None" using assms(3) by simp
  have t3: "tables (ch_state w3) ?q \<noteq> None"
    using init_clickhouse_ok(2) [OF f4, of ?cs] s3 by simp
  obtain w4 where s4: "create_vertica_table env settings w3 = (Return (), w4)"
    using create_vertica_table_returns [of env settings w3]
    by (cases "create_vertica_table env settings w3") simp
  have v4: "vt_stmts w4 = vt_stmts w3 @ [?create]"
    using create_vertica_table_stmts [of env settings w3] s4 vf by simp
  have t4: "tables (ch_state w4) ?q \<noteq> None"
    using create_vertica_table_frame [of w3 env settings] s4 t3 by (simp add: same_clickhouse_def)
  obtain events w5 where g: "generate_events env 1000 w4 = (events, w5)"
    by (cases "generate_events env 1000 w4")
  then have s5: "io_lift (generate_events env 1000) w4 = (Return events, w5)"
    by (simp add: io_lift_def)
  from g have "generate_events_loop env (nat 1000) w4 = (events, w5)"
    by (simp add: generate_events_def)
  from generate_events_loop_frame [OF this] have len: "length events = 1000" by simp
  have v5: "vt_stmts w5 = vt_stmts w4"
    using generate_events_frame(2) [of w4 env 1000] s5 by (simp add: same_vertica_def)
  have t5: "tables (ch_state w5) ?q \<noteq> None"
    using generate_events_frame(3) [of w4 env 1000] s5 t4 by (simp add: same_clickhouse_def)
  obtain t1 w6 where s6: "load_data_to_clickhouse env events ?cs w5 = (Return t1, w6)"
    using load_data_to_clickhouse_returns [of env events ?cs w5]
    by (cases "load_data_to_clickhouse env events ?cs w5") auto
  have v6: "vt_stmts w6 = vt_stmts w5"
    using load_data_to_clickhouse_frame [of w5 env events ?cs] s6 by (simp add: same_vertica_def)
  have t6: "tables (ch_state w6) ?q \<noteq> None"
    using load_data_to_clickhouse_keeps_tables [OF t5, of env events ?cs] s6 by simp
  have f7: "\<forall>k \<le> Suc (length events). vt_fail env (vt_ops w6 + k) = None" using assms(4) by simp
  let ?rows = "map (\<lambda>a. (event_type (heap w6 a), timestamp (heap w6 a), user_id (heap w6 a), url (heap w6 a))) events"
  obtain t2 w7 where s7: "load_data_to_vertica env events w6 = (Return t2, w7)"
    and v7: "vt_stmts w7 = vt_stmts w6 @
       map (\<lambda>d. Execute ''INSERT INTO public.events VALUES (%s, %s, %s, %s)'' (Some d)) ?rows @
       [Execute ''COMMIT'' None]"
    using load_data_to_vertica_ok [OF f7] by (simp add: comp_def)
  have t7: "tables (ch_state w7) ?q \<noteq> None"
    using load_data_to_vertica_frame [of w6 env events] s7 t6 by (simp add: same_clickhouse_def)
  have f8: "ch_fail env (length (ch_calls w7)) = None" using assms(3) by simp
  obtain t3' w8 where s8: "read_data env ?cs w7 = (Return t3', w8)"
    using read_data_ok [OF f8 t7] by (cases "read_data env ?cs w7") auto
  have v8: "vt_stmts w8 = vt_stmts w7"
    using read_data_frame [of w7 env ?cs] s8 by (simp add: same_vertica_def)
  have f9: "\<forall>k < 3. vt_fail env (vt_ops w8 + k) = None" using assms(4) by simp
  obtain t4' w9 where s9: "read_data_from_vertica env settings w8 = (Return t4', w9)"
    using read_data_from_vertica_ok [OF f9, of settings]
    by (cases "read_data_from_vertica env settings w8") auto
  have v9: "vt_stmts w9 = vt_stmts w8 @ [?select]"
    using read_data_from_vertica_stmts [of env settings w8] s9 vf by simp
  have m: "fst (main env settings w) = Return (Some
          [''clickhouse_write_time'' \<mapsto> t1, ''vertica_write_time'' \<mapsto> t2,
           ''clickhouse_read_time'' \<mapsto> t3', ''vertica_read_time'' \<mapsto> t4'])"
    and v: "vt_stmts (snd (main env settings w)) = vt_stmts w9"
    by (simp add: main_def io_bind_def try_except_def io_return_def s1 s2 s3 s4 s5 s6 s7 s8 s9,
        simp add: logger_def io_bind_def io_return_def)+
  have "length ?rows = 1000" using len by simp
  moreover have "vt_stmts (snd (main env settings w)) =
       vt_stmts w @ [?create] @
       map (\<lambda>d. Execute ''INSERT INTO public.events VALUES (%s, %s, %s, %s)'' (Some d)) ?rows @
       [Execute ''COMMIT'' None, ?select]"
    using v v9 v8 v7 v6 v5 v4 v3 v2 v1 by simp
  ultimately show ?thesis using m by blast
qed

lemma four_keys_dom:
  "dom [''clickhouse_write_time'' \<mapsto> (a::real), ''vertica_write_time'' \<mapsto> b,
        ''clickhouse_read_time'' \<mapsto> c, ''vertica_read_time'' \<mapsto> d] =
     {''clickhouse_write_time'', ''vertica_write_time'', ''clickhouse_read_time'', ''vertica_read_time''}"
  by (simp add: insert_commute)

lemma four_keys_values:
  "[''clickhouse_write_time'' \<mapsto> (a::real), ''vertica_write_time'' \<mapsto> b,
        ''clickhouse_read_time'' \<mapsto> c, ''vertica_read_time'' \<mapsto> d] ''clickhouse_write_time'' = Some a"
  "[''clickhouse_write_time'' \<mapsto> (a::real), ''vertica_write_time'' \<mapsto> b,
        ''clickhouse_read_time'' \<mapsto> c, ''vertica_read_time'' \<mapsto> d] ''vertica_write_time'' = Some b"
  "[''clickhouse_write_time'' \<mapsto> (a::real), ''vertica_write_time'' \<mapsto> b,
        ''clickhouse_read_time'' \<mapsto> c, ''vertica_read_time'' \<mapsto> d] ''clickhouse_read_time'' = Some c"
  "[''clickhouse_write_time'' \<mapsto> (a::real), ''vertica_write_time'' \<mapsto> b,
        ''clickhouse_read_time'' \<mapsto> c, ''vertica_read_time'' \<mapsto> d] ''vertica_read_time'' = Some d"
  by simp_all

lemma four_keys_nonneg:
  assumes "0 \<le> a" "0 \<le> b" "0 \<le> c" "0 \<le> d"
    and "[''clickhouse_write_time'' \<mapsto> (a::real), ''vertica_write_time'' \<mapsto> b,
        ''clickhouse_read_time'' \<mapsto> c, ''vertica_read_time'' \<mapsto> d] k = Some t"
  shows "0 \<le> t"
  using assms by (simp split: if_splits)

lemma connect_to_vertica_fails:
  assumes "vt_connect_fail env = Some e"
  shows "fst (connect_to_vertica env self w) =
     Raise (case e of VerticaConnectionError msg \<Rightarrow> ConnectionError
                    | ConnectionError \<Rightarrow> ConnectionError
                    | DriverError msg \<Rightarrow> DriverError msg)"
  using assms
  by (cases e) (simp_all add: connect_to_vertica_def vertica_connect_def io_defs Let_def)

lemma DatabaseManager_init_fails:
  assumes "vt_connect_fail env = Some e"
  shows "\<exists>e'. fst (DatabaseManager_init env cs vs w) = Raise e'"
proof (cases "ClickhouseLoader_init env cs w")
  case (Pair r w1)
  show ?thesis
  proof (cases r)
    case (Raise e1)
    with Pair show ?thesis by (simp add: DatabaseManager_init_def io_defs)
  next
    case (Return l)
    obtain r2 w2 where c: "connect_to_vertica env \<lparr>vertica_settings = vs, clickhouse_loader = l\<rparr> w1 = (r2, w2)"
      by (cases "connect_to_vertica env \<lparr>vertica_settings = vs, clickhouse_loader = l\<rparr> w1")
    with connect_to_vertica_fails [OF assms, of "\<lparr>vertica_settings = vs, clickhouse_loader = l\<rparr>" w1]
    obtain e2 where "r2 = Raise e2" by simp
    with Pair Return c show ?thesis by (simp add: DatabaseManager_init_def io_defs Let_def)
  qed
qed

lemma main_aborts:
  assumes "fst (DatabaseManager_init env (clickhouse settings) (vertica settings)
                  (w\<lparr>log_lines := log_lines w @ [INFO ''Starting data generation and loading process'']\<rparr>)) = Raise e"
  shows "fst (main env settings w) = Return None"
    and "same_generator w (snd (main env settings w))"
    and "same_clock w (snd (main env settings w))"
    and "same_vertica w (snd (main env settings w))"
    and "last (log_lines (snd (main env settings w))) = EXCEPTION ''Unhandled exception'' e"
proof -
  let ?w1 = "w\<lparr>log_lines := log_lines w @ [INFO ''Starting data generation and loading process'']\<rparr>"
  have s1: "logger (INFO ''Starting data generation and loading process'') w = (Return (), ?w1)"
    by (simp add: logger_def)
  obtain w2 where s2: "DatabaseManager_init env (clickhouse settings) (vertica settings) ?w1 = (Raise e, w2)"
    using assms by (cases "DatabaseManager_init env (clickhouse settings) (vertica settings) ?w1") simp
  have m: "main env settings w =
      (Return None, w2\<lparr>log_lines := log_lines w2 @ [EXCEPTION ''Unhandled exception'' e]\<rparr>)"
    by (simp add: main_def io_bind_def try_except_def io_return_def s1 s2)
       (simp add: logger_def io_return_def)
  have f1: "same_generator w ?w1" "same_clock w ?w1" "same_vertica w ?w1"
    by (simp_all add: same_defs)
  have f2: "same_generator ?w1 w2" "same_clock ?w1 w2" "same_vertica ?w1 w2"
    using DatabaseManager_init_frame [of ?w1 env "clickhouse settings" "vertica settings"] s2
    by simp_all
  show "fst (main env settings w) = Return None" using m by simp
  show "same_generator w (snd (main env settings w))"
    using m f1 f2 by (simp add: same_defs)
  show "same_clock w (snd (main env settings w))"
    using m f1 f2 by (simp add: same_defs)
  show "same_vertica w (snd (main env settings w))"
    using m f1 f2 by (simp add: same_defs)
  show "last (log_lines (snd (main env settings w))) = EXCEPTION ''Unhandled exception'' e"
    using m by simp
qed

lemma generate_events_advances:
  "rand_pos (snd (generate_events env 1000 v)) = rand_pos v + 4000 \<and>
   heap_next (snd (generate_events env 1000 v)) = heap_next v + 1000"
proof -
  obtain evs v' where g: "generate_events_loop env (nat 1000) v = (evs, v')"
    by (cases "generate_events_loop env (nat 1000) v")
  from generate_events_loop_frame [OF g] g show ?thesis
    by (simp add: generate_events_def)
qed

lemma DatabaseManager_init_fails_exact:
  assumes "ch_connect_fail env = None" and "vt_connect_fail env = Some e"
  shows "fst (DatabaseManager_init env cs vs w) =
     Raise (case e of VerticaConnectionError msg \<Rightarrow> ConnectionError
                    | ConnectionError \<Rightarrow> ConnectionError
                    | DriverError msg \<Rightarrow> DriverError msg)"
proof -
  obtain r w1 where l: "ClickhouseLoader_init env cs w = (r, w1)"
    by (cases "ClickhouseLoader_init env cs w")
  with ClickhouseLoader_init_ok [OF assms(1), of cs w] have r: "r = Return cs" by simp
  obtain r2 w2 where c: "connect_to_vertica env \<lparr>vertica_settings = vs, clickhouse_loader = cs\<rparr> w1 = (r2, w2)"
    by (cases "connect_to_vertica env \<lparr>vertica_settings = vs, clickhouse_loader = cs\<rparr> w1")
  with connect_to_vertica_fails [OF assms(2), of "\<lparr>vertica_settings = vs, clickhouse_loader = cs\<rparr>" w1]
  have r2: "r2 = Raise (case e of VerticaConnectionError msg \<Rightarrow> ConnectionError
                    | ConnectionError \<Rightarrow> ConnectionError
                    | DriverError msg \<Rightarrow> DriverError msg)" by simp
  show ?thesis using l r c r2 by (simp add: DatabaseManager_init_def io_defs Let_def)
qed

section \<open>The statements sent to Vertica: helper lemmas\<close>

lemma only_main_statements_trans:
  "only_main_statements s a b \<Longrightarrow> only_main_statements s b c \<Longrightarrow> only_main_statements s a c"
proof -
  assume "only_main_statements s a b" and "only_main_statements s b c"
  then obtain n1 n2 where
    1: "vt_stmts b = vt_stmts a @ n1" "\<forall>st \<in> set n1. main_statement s st"
    and 2: "vt_stmts c = vt_stmts b @ n2" "\<forall>st \<in> set n2. main_statement s st"
    unfolding only_main_statements_def by blast
  have "vt_stmts c = vt_stmts a @ (n1 @ n2)" using 1(1) 2(1) by simp
  moreover have "\<forall>st \<in> set (n1 @ n2). main_statement s st"
    using 1(2) 2(2) by simp blast
  ultimately show ?thesis unfolding only_main_statements_def by blast
qed

lemma same_vertica_main_statements: "same_vertica a b \<Longrightarrow> only_main_statements s a b"
  by (simp add: same_vertica_def only_main_statements_def)

lemma create_vertica_table_main_statements:
  "only_main_statements settings w (snd (create_vertica_table env settings w))"
  unfolding only_main_statements_def
  by (subst create_vertica_table_stmts) (simp add: main_statement_def)

lemma read_data_from_vertica_main_statements:
  "only_main_statements settings w (snd (read_data_from_vertica env settings w))"
  unfolding only_main_statements_def
  by (subst read_data_from_vertica_stmts) (simp add: main_statement_def)

lemma load_data_to_vertica_new_statements:
  "\<exists>new. vt_stmts (snd (load_data_to_vertica env events w)) = vt_stmts w @ new \<and>
     (\<forall>st \<in> set new.
        (\<exists>d. st = Execute ''INSERT INTO public.events VALUES (%s, %s, %s, %s)'' (Some d)) \<or>
        st = Execute ''COMMIT'' None)"
proof -
  let ?all = "map (\<lambda>a. Execute ''INSERT INTO public.events VALUES (%s, %s, %s, %s)''
                 (Some (event_type (heap w a), timestamp (heap w a), user_id (heap w a), url (heap w a)))) events @
          [Execute ''COMMIT'' None]"
  from load_data_to_vertica_trace [of events env w] obtain n where
    n: "vt_stmts (snd (load_data_to_vertica env events w)) = vt_stmts w @ take n ?all"
    by blast
  have "\<forall>st \<in> set (take n ?all).
        (\<exists>d. st = Execute ''INSERT INTO public.events VALUES (%s, %s, %s, %s)'' (Some d)) \<or>
        st = Execute ''COMMIT'' None"
  proof
    fix st assume "st \<in> set (take n ?all)"
    then have "st \<in> set ?all" by (rule in_set_takeD)
    then show "(\<exists>d. st = Execute ''INSERT INTO public.events VALUES (%s, %s, %s, %s)'' (Some d)) \<or>
        st = Execute ''COMMIT'' None" by auto
  qed
  with n show ?thesis by blast
qed

lemma load_data_to_vertica_main_statements:
  "only_main_statements settings w (snd (load_data_to_vertica env events w))"
  using load_data_to_vertica_new_statements [of env events w]
  unfolding only_main_statements_def main_statement_def by blast

lemmas main_statements_bind =
  io_bind_rel [where R = "only_main_statements settings", OF only_main_statements_trans]
  try_except_rel [where R = "only_main_statements settings", OF only_main_statements_trans]
  for settings

lemma main_main_statements: "only_main_statements settings w (snd (main env settings w))"
  unfolding main_def
  apply (intro main_statements_bind)
  apply (simp_all add: same_vertica_main_statements prim_frames DatabaseManager_init_frame init_clickhouse_frame
      create_vertica_table_main_statements load_data_to_clickhouse_frame read_data_frame
      load_data_to_vertica_main_statements read_data_from_vertica_main_statements)
  done

section \<open>The claims about the loaders\<close>

text \<open>
  Claim C2, as the code has it. The operations of \<^verbatim>\<open>load_data_to_vertica\<close> on the
  connection are: opening the cursor, one single-row \<^verbatim>\<open>INSERT\<close> per event, in the order of
  the list, and one \<^verbatim>\<open>COMMIT\<close>. The statements it executes are always a prefix of the \<open>n\<close>
  inserts followed by the \<^verbatim>\<open>COMMIT\<close>: there is never a bulk insert and never a \<^verbatim>\<open>COMMIT\<close>
  before the last \<^verbatim>\<open>INSERT\<close>. When the call returns, it has executed all of them, exactly
  \<open>n\<close> inserts and then exactly one \<^verbatim>\<open>COMMIT\<close>. It returns exactly when none of its
  \<open>n + 2\<close> operations raises. When operation \<open>j\<close> is the first to raise, with exception
  \<open>e\<close>, the call ends there: it raises \<open>e\<close>, and the statements executed are the first
  \<open>j\<close> of the sequence, the one that raised being the last (none when the cursor could
  not be opened).
\<close>

theorem load_data_to_vertica_statements:
  "(\<exists>n \<le> Suc (length events).
      vt_stmts (snd (load_data_to_vertica env events w)) =
        vt_stmts w @ take n
          (map (\<lambda>a. Execute ''INSERT INTO public.events VALUES (%s, %s, %s, %s)''
                  (Some (event_type (heap w a), timestamp (heap w a), user_id (heap w a), url (heap w a)))) events @
           [Execute ''COMMIT'' None])) \<and>
   ((\<exists>t. fst (load_data_to_vertica env events w) = Return t) \<longrightarrow>
      vt_stmts (snd (load_data_to_vertica env events w)) =
        vt_stmts w @
          map (\<lambda>a. Execute ''INSERT INTO public.events VALUES (%s, %s, %s, %s)''
                  (Some (event_type (heap w a), timestamp (heap w a), user_id (heap w a), url (heap w a)))) events @
          [Execute ''COMMIT'' None]) \<and>
   ((\<forall>k \<le> Suc (length events). vt_fail env (vt_ops w + k) = None) \<longrightarrow>
      (\<exists>t. fst (load_data_to_vertica env events w) = Return t)) \<and>
   (\<forall>j e. j \<le> Suc (length events) \<and> (\<forall>k < j. vt_fail env (vt_ops w + k) = None) \<and>
          vt_fail env (vt_ops w + j) = Some e \<longrightarrow>
      fst (load_data_to_vertica env events w) = Raise e \<and>
      vt_stmts (snd (load_data_to_vertica env events w)) =
        vt_stmts w @ take j
          (map (\<lambda>a. Execute ''INSERT INTO public.events VALUES (%s, %s, %s, %s)''
                  (Some (event_type (heap w a), timestamp (heap w a), user_id (heap w a), url (heap w a)))) events @
           [Execute ''COMMIT'' None])) \<and>
   ((\<exists>t. fst (load_data_to_vertica env events w) = Return t) \<longrightarrow>
      (\<forall>k \<le> Suc (length events). vt_fail env (vt_ops w + k) = None))"
proof -
  let ?all = "map (\<lambda>a. Execute ''INSERT INTO public.events VALUES (%s, %s, %s, %s)''
                  (Some (event_type (heap w a), timestamp (heap w a), user_id (heap w a), url (heap w a)))) events @
           [Execute ''COMMIT'' None]"
  from load_data_to_vertica_trace [of events env w] obtain n where
    n: "n \<le> Suc (length events)"
      "vt_stmts (snd (load_data_to_vertica env events w)) = vt_stmts w @ take n ?all"
      "(\<exists>t. fst (load_data_to_vertica env events w) = Return t) \<longrightarrow> n = Suc (length events)"
    by blast
  have a: "\<exists>n \<le> Suc (length events).
      vt_stmts (snd (load_data_to_vertica env events w)) = vt_stmts w @ take n ?all"
    using n(1,2) by blast
  have b: "(\<exists>t. fst (load_data_to_vertica env events w) = Return t) \<longrightarrow>
      vt_stmts (snd (load_data_to_vertica env events w)) = vt_stmts w @ ?all"
    using n(2,3) by simp
  have c: "(\<forall>k \<le> Suc (length events). vt_fail env (vt_ops w + k) = None) \<longrightarrow>
      (\<exists>t. fst (load_data_to_vertica env events w) = Return t)"
  proof
    assume h: "\<forall>k \<le> Suc (length events). vt_fail env (vt_ops w + k) = None"
    show "\<exists>t. fst (load_data_to_vertica env events w) = Return t"
      using load_data_to_vertica_ok [OF h] by simp
  qed
  have d: "\<forall>j e. j \<le> Suc (length events) \<and> (\<forall>k < j. vt_fail env (vt_ops w + k) = None) \<and>
          vt_fail env (vt_ops w + j) = Some e \<longrightarrow>
      fst (load_data_to_vertica env events w) = Raise e \<and>
      vt_stmts (snd (load_data_to_vertica env events w)) = vt_stmts w @ take j ?all"
    using load_data_to_vertica_fails [of _ events env w] by blast
  have e: "(\<exists>t. fst (load_data_to_vertica env events w) = Return t) \<longrightarrow>
      (\<forall>k \<le> Suc (length events). vt_fail env (vt_ops w + k) = None)"
  proof (intro impI allI)
    fix k
    assume r: "\<exists>t. fst (load_data_to_vertica env events w) = Return t"
      and k: "k \<le> Suc (length events)"
    show "vt_fail env (vt_ops w + k) = None"
    proof (rule ccontr)
      assume "vt_fail env (vt_ops w + k) \<noteq> None"
      then have ex: "\<exists>i. vt_fail env (vt_ops w + i) \<noteq> None" by blast
      define j where "j = (LEAST i. vt_fail env (vt_ops w + i) \<noteq> None)"
      have j1: "vt_fail env (vt_ops w + j) \<noteq> None"
        unfolding j_def using ex by (rule LeastI_ex)
      have j2: "\<forall>i < j. vt_fail env (vt_ops w + i) = None"
        unfolding j_def using not_less_Least by blast
      have "j \<le> k" unfolding j_def
        using \<open>vt_fail env (vt_ops w + k) \<noteq> None\<close> by (rule Least_le)
      with k have j3: "j \<le> Suc (length events)" by simp
      from j1 obtain x where "vt_fail env (vt_ops w + j) = Some x" by blast
      from load_data_to_vertica_fails [OF j3 j2 this]
      have "fst (load_data_to_vertica env events w) = Raise x" by blast
      with r show False by simp
    qed
  qed
  show ?thesis using a b c d e by (intro conjI)
qed

theorem load_data_to_vertica_statements_witness:
  "vt_fail env0 = (\<lambda>k. None) \<and>
   fst (load_data_to_vertica env0 [0, 1] w_events) = Return 1 \<and>
   vt_stmts (snd (load_data_to_vertica env0 [0, 1] w_events)) =
     [Execute ''INSERT INTO public.events VALUES (%s, %s, %s, %s)''
        (Some (''click'', 999913600000000, Some (UUID 100), Some ''http://example.com'')),
      Execute ''INSERT INTO public.events VALUES (%s, %s, %s, %s)''
        (Some (''view'', 999568000000001, None, Some ''http://test.com'')),
      Execute ''COMMIT'' None] \<and>
   vt_fail env_insert_fails 0 = None \<and>
   vt_fail env_insert_fails 1 = Some (DriverError ''insert failed'') \<and>
   fst (load_data_to_vertica env_insert_fails [0, 1] w_events) =
     Raise (DriverError ''insert failed'') \<and>
   vt_stmts (snd (load_data_to_vertica env_insert_fails [0, 1] w_events)) =
     [Execute ''INSERT INTO public.events VALUES (%s, %s, %s, %s)''
        (Some (''click'', 999913600000000, Some (UUID 100), Some ''http://example.com''))]"
proof -
  have f: "vt_fail env0 = (\<lambda>k. None)" by (simp add: env0_def)
  then have h: "\<forall>k \<le> Suc (length [0::nat, 1]). vt_fail env0 (vt_ops w_events + k) = None" by simp
  from load_data_to_vertica_statements [of "[0, 1]" env0 w_events] h
  have r: "\<exists>t. fst (load_data_to_vertica env0 [0, 1] w_events) = Return t" by blast
  with load_data_to_vertica_statements [of "[0, 1]" env0 w_events]
  have "vt_stmts (snd (load_data_to_vertica env0 [0, 1] w_events)) =
        vt_stmts w_events @
          map (\<lambda>a. Execute ''INSERT INTO public.events VALUES (%s, %s, %s, %s)''
                  (Some (event_type (heap w_events a), timestamp (heap w_events a),
                         user_id (heap w_events a), url (heap w_events a)))) [0, 1] @
          [Execute ''COMMIT'' None]" by blast
  then have s: "vt_stmts (snd (load_data_to_vertica env0 [0, 1] w_events)) =
     [Execute ''INSERT INTO public.events VALUES (%s, %s, %s, %s)''
        (Some (''click'', 999913600000000, Some (UUID 100), Some ''http://example.com'')),
      Execute ''INSERT INTO public.events VALUES (%s, %s, %s, %s)''
        (Some (''view'', 999568000000001, None, Some ''http://test.com'')),
      Execute ''COMMIT'' None]"
    by (simp add: w_events_fields)
  have t: "fst (load_data_to_vertica env0 [0, 1] w_events) = Return 1"
    using load_data_to_vertica_ok [OF h] by (simp add: w_events_fields env0_def)
  have g: "vt_fail env_insert_fails 0 = None"
    "vt_fail env_insert_fails 1 = Some (DriverError ''insert failed'')"
    by (simp_all add: env_insert_fails_def env0_def)
  have pre: "(1::nat) \<le> Suc (length [0::nat, 1]) \<and>
      (\<forall>k < 1. vt_fail env_insert_fails (vt_ops w_events + k) = None) \<and>
      vt_fail env_insert_fails (vt_ops w_events + 1) = Some (DriverError ''insert failed'')"
    using g by (simp add: w_events_fields)
  from load_data_to_vertica_statements [of "[0, 1]" env_insert_fails w_events] pre
  have "fst (load_data_to_vertica env_insert_fails [0, 1] w_events) =
          Raise (DriverError ''insert failed'') \<and>
        vt_stmts (snd (load_data_to_vertica env_insert_fails [0, 1] w_events)) =
          vt_stmts w_events @ take 1
            (map (\<lambda>a. Execute ''INSERT INTO public.events VALUES (%s, %s, %s, %s)''
                  (Some (event_type (heap w_events a), timestamp (heap w_events a),
                         user_id (heap w_events a), url (heap w_events a)))) [0, 1] @
             [Execute ''COMMIT'' None])"
    by blast
  then have u: "fst (load_data_to_vertica env_insert_fails [0, 1] w_events) =
          Raise (DriverError ''insert failed'')"
    and v: "vt_stmts (snd (load_data_to_vertica env_insert_fails [0, 1] w_events)) =
     [Execute ''INSERT INTO public.events VALUES (%s, %s, %s, %s)''
        (Some (''click'', 999913600000000, Some (UUID 100), Some ''http://example.com''))]"
    by (simp_all add: w_events_fields)
  show ?thesis using f t s g u v by (intro conjI)
qed

theorem load_data_to_vertica_statements_counterexample:
  "[0, 1] \<noteq> ([] :: nat list) \<and>
   fst (load_data_to_vertica env_insert_fails [0, 1] w_events) = Raise (DriverError ''insert failed'') \<and>
   vt_stmts (snd (load_data_to_vertica env_insert_fails [0, 1] w_events)) =
     [Execute ''INSERT INTO public.events VALUES (%s, %s, %s, %s)''
        (Some (''click'', 999913600000000, Some (UUID 100), Some ''http://example.com''))] \<and>
   vt_stmts (snd (load_data_to_vertica env_insert_fails [0, 1] w_events)) \<noteq>
     vt_stmts w_events @
     map (\<lambda>a. Execute ''INSERT INTO public.events VALUES (%s, %s, %s, %s)''
                  (Some (event_type (heap w_events a), timestamp (heap w_events a),
                         user_id (heap w_events a), url (heap w_events a)))) [0, 1] @
     [Execute ''COMMIT'' None]"
  by (simp add: load_data_to_vertica_def io_defs time_time_def cursor_def vt_op_def
      cursor_execute_def Let_def w_events_fields env_insert_fails_def env0_def)

text \<open>
  Claim C3, as the code has it. \<^verbatim>\<open>ClickhouseLoader.load_batch([])\<close> returns at once: it makes
  no call, writes no log line, changes nothing and does not raise.
  \<^verbatim>\<open>load_data_to_vertica([], conn)\<close> has no such guard: it executes no \<^verbatim>\<open>INSERT\<close>, but once
  the cursor is open it executes \<^verbatim>\<open>COMMIT\<close>, and it raises exactly when opening the cursor or
  the \<^verbatim>\<open>COMMIT\<close> raises.
\<close>

theorem empty_batch:
  "load_batch env settings [] w = (Return (), w) \<and>
   vt_stmts (snd (load_data_to_vertica env [] w)) =
     vt_stmts w @ (if vt_fail env (vt_ops w) = None then [Execute ''COMMIT'' None] else []) \<and>
   ((\<exists>t. fst (load_data_to_vertica env [] w) = Return t) =
     (vt_fail env (vt_ops w) = None \<and> vt_fail env (Suc (vt_ops w)) = None))"
  by (auto simp: load_batch_def load_data_to_vertica_empty split: option.splits)

theorem empty_batch_counterexample:
  "fst (load_data_to_vertica env0 [] w0) = Return 1 \<and>
   vt_stmts (snd (load_data_to_vertica env0 [] w0)) = [Execute ''COMMIT'' None] \<and>
   vt_stmts (snd (load_data_to_vertica env0 [] w0)) \<noteq> vt_stmts w0"
  by (simp add: load_data_to_vertica_empty env0_def w0_def)

text \<open>
  Claim C4. \<^verbatim>\<open>init_clickhouse\<close> never raises. When no call on the client raises, it issues
  \<^verbatim>\<open>CREATE DATABASE IF NOT EXISTS\<close>, \<^verbatim>\<open>USE\<close>, \<^verbatim>\<open>DROP TABLE IF EXISTS\<close> on the configured
  table and then \<^verbatim>\<open>CREATE TABLE IF NOT EXISTS\<close> on it with the fixed four columns, in this
  order. When a call raises, whichever of the four it is and whatever it raises, the
  calls stop there, the last log line is the exception with the message of the
  \<^verbatim>\<open>except\<close> clause, and \<^verbatim>\<open>init_clickhouse\<close> returns. The last conjunct is the text of the
  four statements.
\<close>

theorem init_clickhouse_spec:
  "fst (init_clickhouse env settings w) = Return () \<and>
   ((\<forall>k < 4. ch_fail env (length (ch_calls w) + k) = None) \<longrightarrow>
      ch_calls (snd (init_clickhouse env settings w)) =
        ch_calls w @
        [Command (CreateDatabaseIfNotExists (ch_database settings)),
         Command (Use (ch_database settings)),
         Command (DropTableIfExists (qualified_name (ch_database settings) (ch_table settings))),
         Command (CreateTableIfNotExists (qualified_name (ch_database settings) (ch_table settings))
                    events_columns ''Engine=MergeTree() ORDER BY timestamp'')]) \<and>
   (\<forall>n e. n < 4 \<and> (\<forall>k < n. ch_fail env (length (ch_calls w) + k) = None) \<and>
          ch_fail env (length (ch_calls w) + n) = Some e \<longrightarrow>
      ch_calls (snd (init_clickhouse env settings w)) =
        ch_calls w @ take (Suc n)
        [Command (CreateDatabaseIfNotExists (ch_database settings)),
         Command (Use (ch_database settings)),
         Command (DropTableIfExists (qualified_name (ch_database settings) (ch_table settings))),
         Command (CreateTableIfNotExists (qualified_name (ch_database settings) (ch_table settings))
                    events_columns ''Engine=MergeTree() ORDER BY timestamp'')] \<and>
      last (log_lines (snd (init_clickhouse env settings w))) =
        EXCEPTION ''An error occurred during ClickHouse initialization'' e) \<and>
   map ch_sql
     [CreateDatabaseIfNotExists (ch_database settings), Use (ch_database settings),
      DropTableIfExists (qualified_name (ch_database settings) (ch_table settings)),
      CreateTableIfNotExists (qualified_name (ch_database settings) (ch_table settings))
        events_columns ''Engine=MergeTree() ORDER BY timestamp''] =
   [''CREATE DATABASE IF NOT EXISTS '' @ ch_database settings,
    ''USE '' @ ch_database settings,
    ''DROP TABLE IF EXISTS '' @ ch_database settings @ ''.'' @ ch_table settings,
    ''CREATE TABLE IF NOT EXISTS '' @ ch_database settings @ ''.'' @ ch_table settings @
      '' (event_type String, timestamp DateTime64, user_id UUID NULL, url String NULL) Engine=MergeTree() ORDER BY timestamp'']"
  using init_clickhouse_returns [of env settings w]
    init_clickhouse_ok(1) [where w = w and env = env and settings = settings]
    init_clickhouse_fails [where w = w and env = env and settings = settings]
    init_statements_text [of "ch_database settings" "ch_table settings"]
  by blast

theorem init_clickhouse_spec_witness:
  "ch_fail env_create_fails 0 = None \<and> ch_fail env_create_fails 1 = None \<and>
   ch_fail env_create_fails 2 = None \<and>
   ch_fail env_create_fails 3 = Some (DriverError ''connection lost'') \<and>
   fst (init_clickhouse env_create_fails ClickhouseSettings_default w0) = Return () \<and>
   ch_calls (snd (init_clickhouse env_create_fails ClickhouseSettings_default w0)) =
     [Command (CreateDatabaseIfNotExists ''example''), Command (Use ''example''),
      Command (DropTableIfExists ''example.events''),
      Command (CreateTableIfNotExists ''example.events'' events_columns
                 ''Engine=MergeTree() ORDER BY timestamp'')] \<and>
   last (log_lines (snd (init_clickhouse env_create_fails ClickhouseSettings_default w0))) =
     EXCEPTION ''An error occurred during ClickHouse initialization'' (DriverError ''connection lost'') \<and>
   ch_fail env0 = (\<lambda>k. None) \<and>
   ch_calls (snd (init_clickhouse env0 ClickhouseSettings_default w0)) =
     [Command (CreateDatabaseIfNotExists ''example''), Command (Use ''example''),
      Command (DropTableIfExists ''example.events''),
      Command (CreateTableIfNotExists ''example.events'' events_columns
                 ''Engine=MergeTree() ORDER BY timestamp'')]"
proof -
  have c0: "length (ch_calls w0) = 0" "ch_calls w0 = []" by (simp_all add: w0_def)
  have f: "ch_fail env_create_fails 0 = None" "ch_fail env_create_fails 1 = None"
    "ch_fail env_create_fails 2 = None"
    "ch_fail env_create_fails 3 = Some (DriverError ''connection lost'')"
    by (simp_all add: env_create_fails_def env0_def)
  have pre: "(3::nat) < 4 \<and> (\<forall>k < 3. ch_fail env_create_fails (length (ch_calls w0) + k) = None) \<and>
      ch_fail env_create_fails (length (ch_calls w0) + 3) = Some (DriverError ''connection lost'')"
    by (simp add: c0 env_create_fails_def env0_def)
  note spec = init_clickhouse_spec [of env_create_fails ClickhouseSettings_default w0]
  from spec have r: "fst (init_clickhouse env_create_fails ClickhouseSettings_default w0) = Return ()"
    by blast
  from spec pre have
    "ch_calls (snd (init_clickhouse env_create_fails ClickhouseSettings_default w0)) =
        ch_calls w0 @ take (Suc 3)
        [Command (CreateDatabaseIfNotExists (ch_database ClickhouseSettings_default)),
         Command (Use (ch_database ClickhouseSettings_default)),
         Command (DropTableIfExists (qualified_name (ch_database ClickhouseSettings_default) (ch_table ClickhouseSettings_default))),
         Command (CreateTableIfNotExists (qualified_name (ch_database ClickhouseSettings_default) (ch_table ClickhouseSettings_default))
                    events_columns ''Engine=MergeTree() ORDER BY timestamp'')] \<and>
      last (log_lines (snd (init_clickhouse env_create_fails ClickhouseSettings_default w0))) =
        EXCEPTION ''An error occurred during ClickHouse initialization'' (DriverError ''connection lost'')"
    by blast
  then have a: "ch_calls (snd (init_clickhouse env_create_fails ClickhouseSettings_default w0)) =
     [Command (CreateDatabaseIfNotExists ''example''), Command (Use ''example''),
      Command (DropTableIfExists ''example.events''),
      Command (CreateTableIfNotExists ''example.events'' events_columns
                 ''Engine=MergeTree() ORDER BY timestamp'')]"
    and b: "last (log_lines (snd (init_clickhouse env_create_fails ClickhouseSettings_default w0))) =
        EXCEPTION ''An error occurred during ClickHouse initialization'' (DriverError ''connection lost'')"
    by (simp_all add: c0 ClickhouseSettings_default_def qualified_name_def)
  have g: "ch_fail env0 = (\<lambda>k. None)" by (simp add: env0_def)
  then have "\<forall>k < 4. ch_fail env0 (length (ch_calls w0) + k) = None" by simp
  with init_clickhouse_spec [of env0 ClickhouseSettings_default w0]
  have "ch_calls (snd (init_clickhouse env0 ClickhouseSettings_default w0)) =
        ch_calls w0 @
        [Command (CreateDatabaseIfNotExists (ch_database ClickhouseSettings_default)),
         Command (Use (ch_database ClickhouseSettings_default)),
         Command (DropTableIfExists (qualified_name (ch_database ClickhouseSettings_default) (ch_table ClickhouseSettings_default))),
         Command (CreateTableIfNotExists (qualified_name (ch_database ClickhouseSettings_default) (ch_table ClickhouseSettings_default))
                    events_columns ''Engine=MergeTree() ORDER BY timestamp'')]"
    by blast
  then have c: "ch_calls (snd (init_clickhouse env0 ClickhouseSettings_default w0)) =
     [Command (CreateDatabaseIfNotExists ''example''), Command (Use ''example''),
      Command (DropTableIfExists ''example.events''),
      Command (CreateTableIfNotExists ''example.events'' events_columns
                 ''Engine=MergeTree() ORDER BY timestamp'')]"
    by (simp add: c0 ClickhouseSettings_default_def qualified_name_def)
  show ?thesis using f r a b g c by simp
qed

text \<open>
  Claim C8, as the code has it, on the modelled server. For every starting state of the
  server, when none of the eight calls of two runs of \<^verbatim>\<open>init_clickhouse\<close> raises, the server
  is in the same state after the second run as after the first: the database exists and
  the configured table exists, empty, with the fixed columns and engine clause. (A run
  that raises after its \<^verbatim>\<open>DROP TABLE\<close> leaves no table.)
\<close>

theorem init_clickhouse_twice:
  assumes "\<forall>k < 8. ch_fail env (length (ch_calls w) + k) = None"
  shows "ch_state (snd (init_clickhouse env settings (snd (init_clickhouse env settings w)))) =
         ch_state (snd (init_clickhouse env settings w)) \<and>
         tables (ch_state (snd (init_clickhouse env settings w)))
           (qualified_name (ch_database settings) (ch_table settings)) =
         Some \<lparr>columns = events_columns, engine = ''Engine=MergeTree() ORDER BY timestamp'',
               table_rows = []\<rparr> \<and>
         ch_database settings \<in> databases (ch_state (snd (init_clickhouse env settings w)))"
proof -
  let ?w1 = "snd (init_clickhouse env settings w)"
  have first: "\<forall>k < 4. ch_fail env (length (ch_calls w) + k) = None" using assms by simp
  note one = init_clickhouse_ok [OF first, of settings]
  have len: "length (ch_calls ?w1) = length (ch_calls w) + 4" using one(1) by simp
  have second: "\<forall>k < 4. ch_fail env (length (ch_calls ?w1) + k) = None"
  proof (intro allI impI)
    fix k :: nat assume "k < 4"
    then have "4 + k < 8" by simp
    with assms have "ch_fail env (length (ch_calls w) + (4 + k)) = None" by blast
    then show "ch_fail env (length (ch_calls ?w1) + k) = None" by (simp add: len add.assoc)
  qed
  note two = init_clickhouse_ok [OF second, of settings]
  show ?thesis using one(2) two(2) by simp
qed

theorem init_clickhouse_twice_witness:
  "ch_fail env0 = (\<lambda>k. None) \<and>
   ch_state (snd (init_clickhouse env0 ClickhouseSettings_default
                    (snd (init_clickhouse env0 ClickhouseSettings_default w0)))) =
   ch_state (snd (init_clickhouse env0 ClickhouseSettings_default w0)) \<and>
   tables (ch_state (snd (init_clickhouse env0 ClickhouseSettings_default w0))) ''example.events'' =
     Some \<lparr>columns = events_columns, engine = ''Engine=MergeTree() ORDER BY timestamp'',
           table_rows = []\<rparr>"
proof -
  have g: "ch_fail env0 = (\<lambda>k. None)" by (simp add: env0_def)
  then have h: "\<forall>k < 8. ch_fail env0 (length (ch_calls w0) + k) = None" by simp
  have q: "qualified_name (ch_database ClickhouseSettings_default) (ch_table ClickhouseSettings_default)
      = ''example.events''"
    by (simp add: qualified_name_def ClickhouseSettings_default_def)
  from init_clickhouse_twice [OF h, of ClickhouseSettings_default] g show ?thesis
    unfolding q by blast
qed

theorem init_clickhouse_twice_counterexample:
  "tables (ch_state (snd (init_clickhouse env_second_create_fails ClickhouseSettings_default w0)))
     ''example.events'' =
     Some \<lparr>columns = events_columns, engine = ''Engine=MergeTree() ORDER BY timestamp'',
           table_rows = []\<rparr> \<and>
   tables (ch_state (snd (init_clickhouse env_second_create_fails ClickhouseSettings_default
             (snd (init_clickhouse env_second_create_fails ClickhouseSettings_default w0)))))
     ''example.events'' = None \<and>
   ch_state (snd (init_clickhouse env_second_create_fails ClickhouseSettings_default
             (snd (init_clickhouse env_second_create_fails ClickhouseSettings_default w0)))) \<noteq>
   ch_state (snd (init_clickhouse env_second_create_fails ClickhouseSettings_default w0))"
proof -
  let ?e = env_second_create_fails
  let ?s = ClickhouseSettings_default
  let ?w1 = "snd (init_clickhouse ?e ?s w0)"
  have c0: "ch_calls w0 = []" by (simp add: w0_def)
  have first: "\<forall>k < 4. ch_fail ?e (length (ch_calls w0) + k) = None"
    by (simp add: env_second_create_fails_def env0_def c0)
  note one = init_clickhouse_ok [OF first, of ?s]
  have q: "qualified_name (ch_database ?s) (ch_table ?s) = ''example.events''"
    by (simp add: qualified_name_def ClickhouseSettings_default_def)
  have t1: "tables (ch_state ?w1) ''example.events'' =
     Some \<lparr>columns = events_columns, engine = ''Engine=MergeTree() ORDER BY timestamp'',
           table_rows = []\<rparr>"
    using one(2) by (simp add: q)
  have len: "length (ch_calls ?w1) = 4" using one(1) by (simp add: c0)
  have f: "ch_fail ?e 4 = None" "ch_fail ?e 5 = None" "ch_fail ?e 6 = None"
    "ch_fail ?e 7 = Some (DriverError ''connection lost'')"
    by (simp_all add: env_second_create_fails_def env0_def)
  have db: "ch_database ?s \<in> databases (ch_state ?w1)" using one(2) by simp
  have t2: "tables (ch_state (snd (init_clickhouse ?e ?s ?w1))) ''example.events'' = None"
    using f db len
    by (simp add: init_clickhouse_def io_defs client_call_def Let_def q)
  show ?thesis using t1 t2 by auto
qed

text \<open>
  Claim C9. Neither write path changes an \<^verbatim>\<open>Event\<close> object: after
  \<^verbatim>\<open>ClickhouseLoader.load_batch\<close>, \<^verbatim>\<open>load_data_to_clickhouse\<close> and \<^verbatim>\<open>load_data_to_vertica\<close>,
  whether they return or raise, every object holds what it held before, so the events
  of the list read as they did when the list was passed in.
\<close>

theorem loaders_leave_events_unchanged:
  "heap (snd (load_batch env settings events w)) = heap w \<and>
   map (heap (snd (load_batch env settings events w))) events = map (heap w) events \<and>
   heap (snd (load_data_to_clickhouse env events settings w)) = heap w \<and>
   map (heap (snd (load_data_to_clickhouse env events settings w))) events = map (heap w) events \<and>
   heap (snd (load_data_to_vertica env events w)) = heap w \<and>
   map (heap (snd (load_data_to_vertica env events w))) events = map (heap w) events"
  using load_batch_frame [of w env settings events]
    load_data_to_clickhouse_frame [of w env events settings]
    load_data_to_vertica_frame [of w env events]
  by (simp add: same_generator_def)

text \<open>
  Claim C10. For every configuration, \<^verbatim>\<open>load_batch\<close> on a non-empty batch makes exactly one
  call on the client: an insert into the literal table \<^verbatim>\<open>example.events\<close>, of the events'
  fields in the order of the list. \<^verbatim>\<open>read_data\<close> reads the configured
  \<^verbatim>\<open>database.table\<close> (and \<^verbatim>\<open>init_clickhouse\<close> provisions it, see C4). When the configured
  database or table is not the default one, the configured name is not
  \<^verbatim>\<open>example.events\<close>: the batch goes to another table than the one provisioned and read.
\<close>

theorem load_batch_target:
  "(event_batch \<noteq> [] \<longrightarrow>
      ch_calls (snd (load_batch env settings event_batch w)) =
        ch_calls w @ [Insert ''example.events''
                        (map (\<lambda>event. model_dump_values (heap w event)) event_batch)
                        model_fields_keys]) \<and>
   ch_calls (snd (read_data env settings w)) =
     ch_calls w @ [Query (SelectAllFrom (qualified_name (ch_database settings) (ch_table settings)))] \<and>
   ((ch_database settings \<noteq> ''example'' \<or> ch_table settings \<noteq> ''events'') \<longrightarrow>
      qualified_name (ch_database settings) (ch_table settings) \<noteq> ''example.events'')"
  using load_batch_calls [of event_batch env settings w] read_data_calls [of env settings w]
    qualified_name_default [of "ch_database settings" "ch_table settings"]
  by blast

theorem load_batch_target_witness:
  "[0, 1] \<noteq> ([] :: nat list) \<and>
   ch_database (clickhouse settings_bench) = ''bench'' \<and>
   ch_table (clickhouse settings_bench) = ''events'' \<and>
   ch_calls (snd (load_batch env0 (clickhouse settings_bench) [0, 1] w_events)) =
     [Insert ''example.events''
        [(''click'', 999913600000000, Some (UUID 100), Some ''http://example.com''),
         (''view'', 999568000000001, None, Some ''http://test.com'')]
        [''event_type'', ''timestamp'', ''user_id'', ''url'']] \<and>
   ch_calls (snd (read_data env0 (clickhouse settings_bench) w_events)) =
     [Query (SelectAllFrom ''bench.events'')] \<and>
   qualified_name (ch_database (clickhouse settings_bench)) (ch_table (clickhouse settings_bench)) \<noteq>
     ''example.events''"
proof -
  let ?s = "clickhouse settings_bench"
  have ne: "[0, 1] \<noteq> ([] :: nat list)" by simp
  have db: "ch_database ?s = ''bench''" "ch_table ?s = ''events''"
    by (simp_all add: settings_bench_def ClickhouseSettings_default_def)
  then have hyp: "ch_database ?s \<noteq> ''example'' \<or> ch_table ?s \<noteq> ''events''" by simp
  note t = load_batch_target [of "[0, 1]" env0 ?s w_events]
  from t ne have a: "ch_calls (snd (load_batch env0 ?s [0, 1] w_events)) =
        ch_calls w_events @ [Insert ''example.events''
                        (map (\<lambda>event. model_dump_values (heap w_events event)) [0, 1])
                        model_fields_keys]"
    by blast
  from t have b: "ch_calls (snd (read_data env0 ?s w_events)) =
     ch_calls w_events @ [Query (SelectAllFrom (qualified_name (ch_database ?s) (ch_table ?s)))]"
    by blast
  from t hyp have c: "qualified_name (ch_database ?s) (ch_table ?s) \<noteq> ''example.events''"
    by blast
  have a': "ch_calls (snd (load_batch env0 ?s [0, 1] w_events)) =
     [Insert ''example.events''
        [(''click'', 999913600000000, Some (UUID 100), Some ''http://example.com''),
         (''view'', 999568000000001, None, Some ''http://test.com'')]
        [''event_type'', ''timestamp'', ''user_id'', ''url'']]"
    using a by (simp add: w_events_fields model_dump_values_def model_fields_keys_def)
  have b': "ch_calls (snd (read_data env0 ?s w_events)) = [Query (SelectAllFrom ''bench.events'')]"
    using b by (simp add: w_events_fields db qualified_name_def)
  show ?thesis using ne db a' b' c by (intro conjI)
qed

section \<open>The claims about the orchestrator\<close>

text \<open>
  Claim C6, as the code has it. When \<^verbatim>\<open>main\<close> returns a dictionary (no exception reached its
  \<^verbatim>\<open>except\<close> clause), the dictionary has exactly the four keys
  \<^verbatim>\<open>clickhouse_write_time\<close>, \<^verbatim>\<open>vertica_write_time\<close>, \<^verbatim>\<open>clickhouse_read_time\<close> and
  \<^verbatim>\<open>vertica_read_time\<close>, and each value is a reading of \<^verbatim>\<open>time.time()\<close> minus the reading
  before it: the first eight readings of the run, in pairs. A value is not negative when
  the second reading of its pair is not below the first. (\<^verbatim>\<open>time.time()\<close> is the system
  clock, which can be set back; the sign of a difference of two floats is the sign of the
  difference of the numbers they stand for.)
\<close>

theorem main_result:
  assumes "fst (main env settings w) = Return (Some m)"
  shows "dom m = {''clickhouse_write_time'', ''vertica_write_time'',
                  ''clickhouse_read_time'', ''vertica_read_time''} \<and>
    m ''clickhouse_write_time'' = Some (time_raw env (time_pos w + 1) - time_raw env (time_pos w)) \<and>
    m ''vertica_write_time'' = Some (time_raw env (time_pos w + 3) - time_raw env (time_pos w + 2)) \<and>
    m ''clickhouse_read_time'' = Some (time_raw env (time_pos w + 5) - time_raw env (time_pos w + 4)) \<and>
    m ''vertica_read_time'' = Some (time_raw env (time_pos w + 7) - time_raw env (time_pos w + 6)) \<and>
    (time_raw env (time_pos w) \<le> time_raw env (time_pos w + 1) \<and>
     time_raw env (time_pos w + 2) \<le> time_raw env (time_pos w + 3) \<and>
     time_raw env (time_pos w + 4) \<le> time_raw env (time_pos w + 5) \<and>
     time_raw env (time_pos w + 6) \<le> time_raw env (time_pos w + 7) \<longrightarrow>
     (\<forall>k t. m k = Some t \<longrightarrow> 0 \<le> t))"
proof -
  from assms have "main env settings w = (Return (Some m), snd (main env settings w))"
    by (metis prod.collapse)
  note m = main_Return_Some [OF this]
  have d: "dom m = {''clickhouse_write_time'', ''vertica_write_time'',
                  ''clickhouse_read_time'', ''vertica_read_time''}"
    unfolding m by (rule four_keys_dom)
  have v1: "m ''clickhouse_write_time'' = Some (time_raw env (time_pos w + 1) - time_raw env (time_pos w))"
    unfolding m by (rule four_keys_values)
  have v2: "m ''vertica_write_time'' = Some (time_raw env (time_pos w + 3) - time_raw env (time_pos w + 2))"
    unfolding m by (rule four_keys_values)
  have v3: "m ''clickhouse_read_time'' = Some (time_raw env (time_pos w + 5) - time_raw env (time_pos w + 4))"
    unfolding m by (rule four_keys_values)
  have v4: "m ''vertica_read_time'' = Some (time_raw env (time_pos w + 7) - time_raw env (time_pos w + 6))"
    unfolding m by (rule four_keys_values)
  have p: "time_raw env (time_pos w) \<le> time_raw env (time_pos w + 1) \<and>
     time_raw env (time_pos w + 2) \<le> time_raw env (time_pos w + 3) \<and>
     time_raw env (time_pos w + 4) \<le> time_raw env (time_pos w + 5) \<and>
     time_raw env (time_pos w + 6) \<le> time_raw env (time_pos w + 7) \<longrightarrow>
     (\<forall>k t. m k = Some t \<longrightarrow> 0 \<le> t)"
  proof (intro impI allI)
    fix k t
    assume le: "time_raw env (time_pos w) \<le> time_raw env (time_pos w + 1) \<and>
     time_raw env (time_pos w + 2) \<le> time_raw env (time_pos w + 3) \<and>
     time_raw env (time_pos w + 4) \<le> time_raw env (time_pos w + 5) \<and>
     time_raw env (time_pos w + 6) \<le> time_raw env (time_pos w + 7)"
    assume "m k = Some t"
    then have k: "[''clickhouse_write_time'' \<mapsto> time_raw env (time_pos w + 1) - time_raw env (time_pos w),
              ''vertica_write_time'' \<mapsto> time_raw env (time_pos w + 3) - time_raw env (time_pos w + 2),
              ''clickhouse_read_time'' \<mapsto> time_raw env (time_pos w + 5) - time_raw env (time_pos w + 4),
              ''vertica_read_time'' \<mapsto> time_raw env (time_pos w + 7) - time_raw env (time_pos w + 6)] k = Some t"
      unfolding m .
    show "0 \<le> t"
      by (rule four_keys_nonneg [OF _ _ _ _ k]) (use le in simp_all)
  qed
  show ?thesis using d v1 v2 v3 v4 p by (intro conjI)
qed

theorem main_result_witness:
  "fst (main env0 settings_default w0) =
     Return (Some [''clickhouse_write_time'' \<mapsto> 1, ''vertica_write_time'' \<mapsto> 1,
                   ''clickhouse_read_time'' \<mapsto> 1, ''vertica_read_time'' \<mapsto> 1]) \<and>
   time_raw env0 0 \<le> time_raw env0 1 \<and> time_raw env0 2 \<le> time_raw env0 3 \<and>
   time_raw env0 4 \<le> time_raw env0 5 \<and> time_raw env0 6 \<le> time_raw env0 7 \<and>
   dom [''clickhouse_write_time'' \<mapsto> 1 :: real, ''vertica_write_time'' \<mapsto> 1,
        ''clickhouse_read_time'' \<mapsto> 1, ''vertica_read_time'' \<mapsto> 1] =
     {''clickhouse_write_time'', ''vertica_write_time'', ''clickhouse_read_time'', ''vertica_read_time''}"
proof -
  have ok: "ch_connect_fail env0 = None" "vt_connect_fail env0 = None"
    "ch_fail env0 = (\<lambda>k. None)" "vt_fail env0 = (\<lambda>k. None)"
    by (simp_all add: env0_def)
  from main_ok [OF ok, of settings_default w0] obtain m where
    m: "fst (main env0 settings_default w0) = Return (Some m)" by blast
  then have "main env0 settings_default w0 = (Return (Some m), snd (main env0 settings_default w0))"
    by (metis prod.collapse)
  note r = main_Return_Some [OF this]
  have v: "time_raw env0 (time_pos w0 + 1) - time_raw env0 (time_pos w0) = 1"
    "time_raw env0 (time_pos w0 + 3) - time_raw env0 (time_pos w0 + 2) = 1"
    "time_raw env0 (time_pos w0 + 5) - time_raw env0 (time_pos w0 + 4) = 1"
    "time_raw env0 (time_pos w0 + 7) - time_raw env0 (time_pos w0 + 6) = 1"
    by (simp_all add: env0_def w0_def)
  have meq: "m = [''clickhouse_write_time'' \<mapsto> 1, ''vertica_write_time'' \<mapsto> 1,
                   ''clickhouse_read_time'' \<mapsto> 1, ''vertica_read_time'' \<mapsto> 1]"
    using r unfolding v .
  have c1: "fst (main env0 settings_default w0) =
     Return (Some [''clickhouse_write_time'' \<mapsto> 1, ''vertica_write_time'' \<mapsto> 1,
                   ''clickhouse_read_time'' \<mapsto> 1, ''vertica_read_time'' \<mapsto> 1])"
    using m unfolding meq .
  have t: "time_raw env0 0 \<le> time_raw env0 1" "time_raw env0 2 \<le> time_raw env0 3"
    "time_raw env0 4 \<le> time_raw env0 5" "time_raw env0 6 \<le> time_raw env0 7"
    by (simp_all add: env0_def)
  from main_result [OF m] have
    "dom m = {''clickhouse_write_time'', ''vertica_write_time'', ''clickhouse_read_time'', ''vertica_read_time''}"
    by (rule conjunct1)
  then have c3: "dom [''clickhouse_write_time'' \<mapsto> 1 :: real, ''vertica_write_time'' \<mapsto> 1,
        ''clickhouse_read_time'' \<mapsto> 1, ''vertica_read_time'' \<mapsto> 1] =
     {''clickhouse_write_time'', ''vertica_write_time'', ''clickhouse_read_time'', ''vertica_read_time''}"
    unfolding meq .
  show ?thesis using c1 t c3 by (intro conjI)
qed

theorem main_result_counterexample:
  "fst (main env_clock_back settings_default w0) =
     Return (Some [''clickhouse_write_time'' \<mapsto> - 1, ''vertica_write_time'' \<mapsto> - 1,
                   ''clickhouse_read_time'' \<mapsto> - 1, ''vertica_read_time'' \<mapsto> - 1]) \<and>
   \<not> (0::real) \<le> - 1"
proof -
  have ok: "ch_connect_fail env_clock_back = None" "vt_connect_fail env_clock_back = None"
    "ch_fail env_clock_back = (\<lambda>k. None)" "vt_fail env_clock_back = (\<lambda>k. None)"
    by (simp_all add: env_clock_back_def env0_def)
  from main_ok [OF ok, of settings_default w0] obtain m where
    m: "fst (main env_clock_back settings_default w0) = Return (Some m)" by blast
  then have "main env_clock_back settings_default w0 =
      (Return (Some m), snd (main env_clock_back settings_default w0))"
    by (metis prod.collapse)
  note r = main_Return_Some [OF this]
  have v: "time_raw env_clock_back (time_pos w0 + 1) - time_raw env_clock_back (time_pos w0) = - 1"
    "time_raw env_clock_back (time_pos w0 + 3) - time_raw env_clock_back (time_pos w0 + 2) = - 1"
    "time_raw env_clock_back (time_pos w0 + 5) - time_raw env_clock_back (time_pos w0 + 4) = - 1"
    "time_raw env_clock_back (time_pos w0 + 7) - time_raw env_clock_back (time_pos w0 + 6) = - 1"
    by (simp_all add: env_clock_back_def env0_def w0_def)
  have meq: "m = [''clickhouse_write_time'' \<mapsto> - 1, ''vertica_write_time'' \<mapsto> - 1,
                   ''clickhouse_read_time'' \<mapsto> - 1, ''vertica_read_time'' \<mapsto> - 1]"
    using r unfolding v .
  have c1: "fst (main env_clock_back settings_default w0) =
     Return (Some [''clickhouse_write_time'' \<mapsto> - 1, ''vertica_write_time'' \<mapsto> - 1,
                   ''clickhouse_read_time'' \<mapsto> - 1, ''vertica_read_time'' \<mapsto> - 1])"
    using m unfolding meq .
  have c2: "\<not> (0::real) \<le> - 1" by simp
  show ?thesis using c1 c2 by (intro conjI)
qed

text \<open>
  Claim C5. When \<^verbatim>\<open>vertica_python.connect\<close> raises, \<^verbatim>\<open>connect_to_vertica\<close> raises: Python's
  \<^verbatim>\<open>ConnectionError\<close> when the driver raised its own \<^verbatim>\<open>ConnectionError\<close>, the driver's
  exception otherwise. So the construction of the \<^verbatim>\<open>DatabaseManager\<close> raises and \<^verbatim>\<open>main\<close>
  logs the exception and returns \<^verbatim>\<open>None\<close>: no timing result. Nothing of the generator was
  touched (no random draw, no \<^verbatim>\<open>uuid4()\<close>, no \<^verbatim>\<open>datetime.now()\<close>, no new \<^verbatim>\<open>Event\<close>), no
  \<^verbatim>\<open>time.time()\<close> was read and nothing was sent to Vertica; as a call of
  \<^verbatim>\<open>generate_events(1000)\<close> makes 4000 random draws and 1000 events (last conjunct),
  \<^verbatim>\<open>generate_events\<close> was not called.
\<close>

theorem vertica_unreachable:
  assumes "vt_connect_fail env = Some e"
  shows "fst (connect_to_vertica env self w) =
           Raise (case e of VerticaConnectionError msg \<Rightarrow> ConnectionError
                          | ConnectionError \<Rightarrow> ConnectionError
                          | DriverError msg \<Rightarrow> DriverError msg) \<and>
         (\<exists>e'. fst (DatabaseManager_init env (clickhouse settings) (vertica settings) w) = Raise e') \<and>
         fst (main env settings w) = Return None \<and>
         same_generator w (snd (main env settings w)) \<and>
         same_clock w (snd (main env settings w)) \<and>
         same_vertica w (snd (main env settings w)) \<and>
         (\<exists>e'. last (log_lines (snd (main env settings w))) = EXCEPTION ''Unhandled exception'' e') \<and>
         (ch_connect_fail env = None \<longrightarrow>
            last (log_lines (snd (main env settings w))) =
              EXCEPTION ''Unhandled exception''
                (case e of VerticaConnectionError msg \<Rightarrow> ConnectionError
                         | ConnectionError \<Rightarrow> ConnectionError
                         | DriverError msg \<Rightarrow> DriverError msg)) \<and>
         (\<forall>v. rand_pos (snd (generate_events env 1000 v)) = rand_pos v + 4000 \<and>
              heap_next (snd (generate_events env 1000 v)) = heap_next v + 1000)"
proof -
  let ?w1 = "w\<lparr>log_lines := log_lines w @ [INFO ''Starting data generation and loading process'']\<rparr>"
  have c1: "fst (connect_to_vertica env self w) =
           Raise (case e of VerticaConnectionError msg \<Rightarrow> ConnectionError
                          | ConnectionError \<Rightarrow> ConnectionError
                          | DriverError msg \<Rightarrow> DriverError msg)"
    by (rule connect_to_vertica_fails [OF assms])
  have c2: "\<exists>e'. fst (DatabaseManager_init env (clickhouse settings) (vertica settings) w) = Raise e'"
    by (rule DatabaseManager_init_fails [OF assms])
  from DatabaseManager_init_fails [OF assms, of "clickhouse settings" "vertica settings" ?w1]
  obtain e1 where e1: "fst (DatabaseManager_init env (clickhouse settings) (vertica settings) ?w1) = Raise e1"
    by blast
  note ab = main_aborts [OF e1]
  have c7: "\<exists>e'. last (log_lines (snd (main env settings w))) = EXCEPTION ''Unhandled exception'' e'"
    using ab(5) by blast
  have c8: "ch_connect_fail env = None \<longrightarrow>
            last (log_lines (snd (main env settings w))) =
              EXCEPTION ''Unhandled exception''
                (case e of VerticaConnectionError msg \<Rightarrow> ConnectionError
                         | ConnectionError \<Rightarrow> ConnectionError
                         | DriverError msg \<Rightarrow> DriverError msg)"
  proof
    assume "ch_connect_fail env = None"
    from DatabaseManager_init_fails_exact [OF this assms, of "clickhouse settings" "vertica settings" ?w1]
    have "fst (DatabaseManager_init env (clickhouse settings) (vertica settings) ?w1) =
       Raise (case e of VerticaConnectionError msg \<Rightarrow> ConnectionError
                    | ConnectionError \<Rightarrow> ConnectionError
                    | DriverError msg \<Rightarrow> DriverError msg)" .
    from main_aborts(5) [OF this] show "last (log_lines (snd (main env settings w))) =
              EXCEPTION ''Unhandled exception''
                (case e of VerticaConnectionError msg \<Rightarrow> ConnectionError
                         | ConnectionError \<Rightarrow> ConnectionError
                         | DriverError msg \<Rightarrow> DriverError msg)" .
  qed
  have c9: "\<forall>v. rand_pos (snd (generate_events env 1000 v)) = rand_pos v + 4000 \<and>
              heap_next (snd (generate_events env 1000 v)) = heap_next v + 1000"
    using generate_events_advances by blast
  show ?thesis using c1 c2 ab(1) ab(2) ab(3) ab(4) c7 c8 c9 by (intro conjI)
qed

theorem vertica_unreachable_witness:
  "vt_connect_fail env_vertica_down = Some (VerticaConnectionError ''connection refused'') \<and>
   ch_connect_fail env_vertica_down = None \<and>
   fst (main env_vertica_down settings_default w0) = Return None \<and>
   rand_pos (snd (main env_vertica_down settings_default w0)) = 0 \<and>
   heap_next (snd (main env_vertica_down settings_default w0)) = 0 \<and>
   time_pos (snd (main env_vertica_down settings_default w0)) = 0 \<and>
   vt_stmts (snd (main env_vertica_down settings_default w0)) = [] \<and>
   last (log_lines (snd (main env_vertica_down settings_default w0))) =
     EXCEPTION ''Unhandled exception'' ConnectionError"
proof -
  have h: "vt_connect_fail env_vertica_down = Some (VerticaConnectionError ''connection refused'')"
    and c: "ch_connect_fail env_vertica_down = None"
    by (simp_all add: env_vertica_down_def env0_def)
  note t = vertica_unreachable [OF h, of "\<lparr>vertica_settings = VerticaSettings_default, clickhouse_loader = ClickhouseSettings_default\<rparr>" w0 settings_default]
  from t have r: "fst (main env_vertica_down settings_default w0) = Return None" by blast
  from t have g: "same_generator w0 (snd (main env_vertica_down settings_default w0))" by blast
  from t have k: "same_clock w0 (snd (main env_vertica_down settings_default w0))" by blast
  from t have v: "same_vertica w0 (snd (main env_vertica_down settings_default w0))" by blast
  from t c have l: "last (log_lines (snd (main env_vertica_down settings_default w0))) =
     EXCEPTION ''Unhandled exception'' ConnectionError" by simp
  have p: "rand_pos (snd (main env_vertica_down settings_default w0)) = 0"
    "heap_next (snd (main env_vertica_down settings_default w0)) = 0"
    "time_pos (snd (main env_vertica_down settings_default w0)) = 0"
    "vt_stmts (snd (main env_vertica_down settings_default w0)) = []"
    using g k v by (simp_all add: same_defs w0_def)
  show ?thesis using h c r p l by (intro conjI)
qed

text \<open>
  Claim C7. For every configuration of the Vertica schema and table, every statement
  \<^verbatim>\<open>load_data_to_vertica\<close> executes is the parameterised
  \<^verbatim>\<open>INSERT INTO public.events VALUES (%s, %s, %s, %s)\<close> or \<^verbatim>\<open>COMMIT\<close>; and every statement a
  run of \<^verbatim>\<open>main\<close> executes on Vertica is one of these two, the \<^verbatim>\<open>CREATE TABLE\<close> of the
  configured \<^verbatim>\<open>schema.table\<close> or the \<^verbatim>\<open>SELECT\<close> from it. So every insert goes to the
  literal \<^verbatim>\<open>public.events\<close>, while creation and reading use the configured names.
\<close>

theorem insert_target:
  "(\<exists>new. vt_stmts (snd (load_data_to_vertica env events w)) = vt_stmts w @ new \<and>
      (\<forall>st \<in> set new.
         (\<exists>d. st = Execute ''INSERT INTO public.events VALUES (%s, %s, %s, %s)'' (Some d)) \<or>
         st = Execute ''COMMIT'' None)) \<and>
   (\<exists>new. vt_stmts (snd (main env settings w)) = vt_stmts w @ new \<and>
      (\<forall>st \<in> set new.
         (\<exists>d. st = Execute ''INSERT INTO public.events VALUES (%s, %s, %s, %s)'' (Some d)) \<or>
         st = Execute ''COMMIT'' None \<or>
         st = Execute (''CREATE TABLE IF NOT EXISTS '' @ vertica_schema (vertica settings) @ ''.'' @
                       vt_table (vertica settings) @
                       '' (event_type VARCHAR(255), timestamp TIMESTAMP, user_id UUID NULL, url VARCHAR(255) NULL)'')
                None \<or>
         st = Execute (''SELECT * FROM '' @ vertica_schema (vertica settings) @ ''.'' @
                       vt_table (vertica settings)) None))"
  using load_data_to_vertica_new_statements [of env events w]
    main_main_statements [of settings w env]
  unfolding only_main_statements_def main_statement_def
  by (intro conjI)

theorem insert_target_witness:
  "vertica_schema (vertica settings_bench) = ''bench'' \<and>
   vt_table (vertica settings_bench) = ''hits'' \<and>
   (\<exists>rows. length rows = 1000 \<and>
      vt_stmts (snd (main env0 settings_bench w0)) =
        [Execute ''CREATE TABLE IF NOT EXISTS bench.hits (event_type VARCHAR(255), timestamp TIMESTAMP, user_id UUID NULL, url VARCHAR(255) NULL)'' None] @
        map (\<lambda>d. Execute ''INSERT INTO public.events VALUES (%s, %s, %s, %s)'' (Some d)) rows @
        [Execute ''COMMIT'' None, Execute ''SELECT * FROM bench.hits'' None]) \<and>
   (\<exists>d. Execute ''INSERT INTO public.events VALUES (%s, %s, %s, %s)'' (Some d)
           \<in> set (vt_stmts (snd (main env0 settings_bench w0))))"
proof -
  have cfg: "vertica_schema (vertica settings_bench) = ''bench''"
    "vt_table (vertica settings_bench) = ''hits''"
    by (simp_all add: settings_bench_def VerticaSettings_default_def)
  have ok: "ch_connect_fail env0 = None" "vt_connect_fail env0 = None"
    "ch_fail env0 = (\<lambda>k. None)" "vt_fail env0 = (\<lambda>k. None)"
    by (simp_all add: env0_def)
  have v0: "vt_stmts w0 = []" by (simp add: w0_def)
  from main_ok [OF ok, of settings_bench w0] obtain rows where
    rows: "length rows = 1000"
      "vt_stmts (snd (main env0 settings_bench w0)) =
        [Execute ''CREATE TABLE IF NOT EXISTS bench.hits (event_type VARCHAR(255), timestamp TIMESTAMP, user_id UUID NULL, url VARCHAR(255) NULL)'' None] @
        map (\<lambda>d. Execute ''INSERT INTO public.events VALUES (%s, %s, %s, %s)'' (Some d)) rows @
        [Execute ''COMMIT'' None, Execute ''SELECT * FROM bench.hits'' None]"
    unfolding cfg v0 by auto
  from rows(1) obtain d ds where "rows = d # ds" by (cases rows) auto
  with rows(2) have mem: "Execute ''INSERT INTO public.events VALUES (%s, %s, %s, %s)'' (Some d)
      \<in> set (vt_stmts (snd (main env0 settings_bench w0)))" by simp
  from insert_target [of env0 "[]" w0 settings_bench] obtain new where
    new: "vt_stmts (snd (main env0 settings_bench w0)) = vt_stmts w0 @ new"
      "\<forall>st \<in> set new.
         (\<exists>d. st = Execute ''INSERT INTO public.events VALUES (%s, %s, %s, %s)'' (Some d)) \<or>
         st = Execute ''COMMIT'' None \<or>
         st = Execute (''CREATE TABLE IF NOT EXISTS '' @ vertica_schema (vertica settings_bench) @ ''.'' @
                       vt_table (vertica settings_bench) @
                       '' (event_type VARCHAR(255), timestamp TIMESTAMP, user_id UUID NULL, url VARCHAR(255) NULL)'')
                None \<or>
         st = Execute (''SELECT * FROM '' @ vertica_schema (vertica settings_bench) @ ''.'' @
                       vt_table (vertica settings_bench)) None"
    by blast
  from mem new(1) have inew: "Execute ''INSERT INTO public.events VALUES (%s, %s, %s, %s)'' (Some d) \<in> set new"
    by (simp add: v0)
  have e: "\<exists>d. Execute ''INSERT INTO public.events VALUES (%s, %s, %s, %s)'' (Some d)
           \<in> set (vt_stmts (snd (main env0 settings_bench w0)))"
  proof (rule exI)
    from inew new(1) show "Execute ''INSERT INTO public.events VALUES (%s, %s, %s, %s)'' (Some d)
           \<in> set (vt_stmts (snd (main env0 settings_bench w0)))"
      by (simp add: v0)
  qed
  have r: "\<exists>rows. length rows = 1000 \<and>
      vt_stmts (snd (main env0 settings_bench w0)) =
        [Execute ''CREATE TABLE IF NOT EXISTS bench.hits (event_type VARCHAR(255), timestamp TIMESTAMP, user_id UUID NULL, url VARCHAR(255) NULL)'' None] @
        map (\<lambda>d. Execute ''INSERT INTO public.events VALUES (%s, %s, %s, %s)'' (Some d)) rows @
        [Execute ''COMMIT'' None, Execute ''SELECT * FROM bench.hits'' None]"
    using rows by blast
  show ?thesis using cfg r e by (intro conjI)
qed

end
